theory Spec2Isabelle
  imports Complex_Main "HOL-Library.Sublist" "HOL-Library.Countable"
begin

section \<open>TalkPrep AI: a shallow embedding of the talk-preparation library\<close>

text \<open>
  The theory embeds the TypeScript sources of the talk-preparation library: the template
  table and outline builder (\<^verbatim>\<open>templates/index.ts\<close>), the slide exporters
  (\<^verbatim>\<open>modules/slides.ts\<close>), the Q&A and rehearsal builders (\<^verbatim>\<open>modules/rehearsal.ts\<close>),
  the validators the workflow consults, and the workflow coordinator \<^verbatim>\<open>TalkPrepSkill\<close>
  (\<^verbatim>\<open>index.ts\<close>).

  Conventions of the embedding.
  \<^item> An interface is a record, a string-literal union a datatype. Field names keep the
    source's name; where two interfaces share a field name, a short prefix tells them apart
    (\<open>os_title\<close> is \<^verbatim>\<open>OutlineSection.title\<close>, \<open>sl_title\<close> is \<^verbatim>\<open>Slide.title\<close>).
  \<^item> An optional field (\<^verbatim>\<open>f?: T\<close>) is an \<open>option\<close>; \<^verbatim>\<open>undefined\<close> is \<open>None\<close>.
  \<^item> A string is a list of bytes, the UTF-8 encoding of the text. The characters that the
    code tests or replaces are ASCII; \<open>length\<close>, \<open>toLowerCase\<close> and the character classes
    are those of JavaScript on ASCII text. The truthiness test \<^verbatim>\<open>if (s)\<close> on an optional
    string is \<open>truthy\<close>: present and non-empty.
  \<^item> A \<^verbatim>\<open>number\<close> that counts minutes, list positions or identifiers is an \<open>int\<close> or a
    \<open>nat\<close>; on such values, below \<open>2\<^sup>5\<^sup>3\<close>, JavaScript's arithmetic is exact and a
    template literal prints the decimal notation. A \<^verbatim>\<open>number\<close> that is divided
    or scaled is a \<open>rat\<close> holding the value of the double, and \<^verbatim>\<open>/\<close>, \<^verbatim>\<open>*\<close> and \<^verbatim>\<open>+\<close>
    round their exact result to the nearest double (\<open>fl\<close>), as IEEE 754 binary64 does.
    Overflow to infinity and \<^verbatim>\<open>NaN\<close> are outside the model.
  \<^item> What a function reads from its environment is an argument: the clock
    (\<^verbatim>\<open>Date.now()\<close>, \<^verbatim>\<open>new Date()\<close>), the validation library
    (\<^verbatim>\<open>TalkConfigSchema.safeParse\<close>), and the platform's \<^verbatim>\<open>JSON.stringify\<close> and conversion
    of a fractional number to a string.
  \<^item> A \<^verbatim>\<open>throw new Error(msg)\<close> is the value \<open>Inl (Error msg)\<close>; a method of the
    coordinator takes the coordinator and returns either the error or its result together
    with the coordinator after the call.
  \<^item> Objects are values: the model does not track that a stored artifact and the returned
    one are the same JavaScript object.
  \<^item> Of the coordinator, the methods that assign to the session and the accessors that the
    properties below speak of are embedded; the methods that only format a prompt or a
    markdown report from the session are not.
\<close>

subsection \<open>Numbers and their decimal notation\<close>

fun nbits :: "nat \<Rightarrow> nat" where
  "nbits n = (if n = 0 then 0 else Suc (nbits (n div 2)))"

declare nbits.simps [simp del]

definition pow2 :: "int \<Rightarrow> rat" where
  "pow2 e = (if 0 \<le> e then 2 ^ nat e else 1 / 2 ^ nat (- e))"

text \<open>\<open>ilog2 x\<close> is the integer part of the binary logarithm of a positive \<open>x\<close>.\<close>

definition ilog2 :: "rat \<Rightarrow> int" where
  "ilog2 x = (if 1 \<le> x then int (nbits (nat \<lfloor>x\<rfloor>)) - 1
              else - int (nbits (nat (\<lceil>1 / x\<rceil> - 1))))"

text \<open>
  Rounding to the nearest integer, a tie going to the even one: \<open>f\<close> is the integer part
  and \<open>d\<close> the fraction.
\<close>

definition tie_to_even :: "int \<Rightarrow> rat \<Rightarrow> int" where
  "tie_to_even f d =
     (if d < 1 / 2 then f else if 1 / 2 < d then f + 1 else if even f then f else f + 1)"

definition round_from :: "rat \<Rightarrow> int \<Rightarrow> int" where
  "round_from x f = tie_to_even f (x - of_int f)"

definition round_even :: "rat \<Rightarrow> int" where
  "round_even x = round_from x \<lfloor>x\<rfloor>"

text \<open>\<open>round_at a e\<close> rounds \<open>a\<close> to a multiple of \<open>2\<^sup>e\<close>.\<close>

definition round_at :: "rat \<Rightarrow> int \<Rightarrow> rat" where
  "round_at a e = of_int (round_even (a / pow2 e)) * pow2 e"

text \<open>
  \<open>fl x\<close> is the double nearest to \<open>x\<close> (ties to the even significand): 53 significant
  bits, and no exponent below that of the subnormal numbers.
\<close>

definition fl :: "rat \<Rightarrow> rat" where
  "fl x = (if x = 0 then 0 else sgn x * round_at \<bar>x\<bar> (max (ilog2 \<bar>x\<bar> - 52) (- 1074)))"

definition js_div :: "rat \<Rightarrow> rat \<Rightarrow> rat" where
  "js_div a b = fl (a / b)"

definition js_mul :: "rat \<Rightarrow> rat \<Rightarrow> rat" where
  "js_mul a b = fl (a * b)"

text \<open>\<^verbatim>\<open>Math.round\<close>: the nearest integer, a tie going towards plus infinity.\<close>

definition Math_round :: "rat \<Rightarrow> int" where
  "Math_round x = \<lfloor>x + 1 / 2\<rfloor>"

definition Math_ceil :: "rat \<Rightarrow> int" where
  "Math_ceil x = \<lceil>x\<rceil>"

definition digit_char :: "nat \<Rightarrow> char" where
  "digit_char d = ''0123456789'' ! d"

text \<open>The decimal notation of a natural number, as a template literal prints it.\<close>

fun show_nat :: "nat \<Rightarrow> string" where
  "show_nat n = (if n < 10 then [digit_char n] else show_nat (n div 10) @ [digit_char (n mod 10)])"

declare show_nat.simps [simp del]

definition show_int :: "int \<Rightarrow> string" where
  "show_int i = (if i < 0 then ''-'' @ show_nat (nat (- i)) else show_nat (nat i))"

subsection \<open>Strings\<close>

definition truthy :: "string option \<Rightarrow> bool" where
  "truthy s = (case s of None \<Rightarrow> False | Some t \<Rightarrow> t \<noteq> [])"

subsection \<open>Input types\<close>

datatype AudienceType = Technical | Academic | Business | General

datatype ExpertiseLevel = Beginner | Intermediate | Expert

datatype TalkType = Keynote | TechnicalDeepDive | Workshop | LightningTalk | PanelDiscussion

datatype ToneType = Formal | Conversational | Inspirational | Educational

datatype ExportFormat = Markdown | Json | Html | Pdf

record TalkConfig =
  topic :: string
  audience :: AudienceType
  cfg_duration :: int
  expertiseLevel :: ExpertiseLevel
  talkType :: TalkType
  tone :: ToneType
  speakerName :: "string option"
  conferenceContext :: "string option"
  additionalNotes :: "string option"

subsection \<open>Outline types\<close>

datatype SectionType = Intro | MainSection | Conclusion | QA | Transition

record OutlineSubsection =
  sub_id :: string
  sub_title :: string
  sub_keyPoints :: "string list"
  suggestedVisuals :: "string list option"

record OutlineSection =
  os_id :: string
  os_title :: string
  os_duration :: int
  os_order :: nat
  os_type :: SectionType
  os_keyPoints :: "string list"
  subsections :: "OutlineSubsection list option"
  os_notes :: "string option"

record TalkOutline =
  to_title :: string
  to_subtitle :: "string option"
  totalDuration :: int
  to_sections :: "OutlineSection list"
  learningObjectives :: "string list"
  callToAction :: "string option"

subsection \<open>Templates for the talk types\<close>

datatype ThemeType = Tech | BusinessTheme | AcademicTheme | Minimal | Creative

record SlideTheme =
  th_name :: string
  th_type :: ThemeType
  primaryColor :: "string option"
  secondaryColor :: "string option"
  fontFamily :: "string option"

record TemplateSection =
  ts_title :: string
  ts_type :: SectionType
  durationPercent :: rat
  keyPointPrompts :: "string list"
  ts_notes :: string

record TalkTemplate =
  tt_name :: string
  description :: string
  defaultDuration :: int
  "structure" :: "TemplateSection list"
  tips :: "string list"
  exampleHooks :: "string list"
  recommendedTheme :: SlideTheme

definition keynoteTemplate :: TalkTemplate where
  "keynoteTemplate =
    \<lparr>tt_name = ''Keynote'',
     description = ''Inspirational, visionary talk that sets the tone for an event'',
     defaultDuration = 45,
     structure =
     [\<lparr>ts_title = ''Opening Hook'', ts_type = Intro, durationPercent = 10,
        keyPointPrompts = [''Start with a story, question, or surprising fact'',
           ''Establish your credibility briefly'',
           ''Preview the journey you'll take them on''],
        ts_notes = ''Make it personal. Connect emotionally. Create anticipation.''\<rparr>,
      \<lparr>ts_title = ''The Problem / Opportunity'', ts_type = MainSection, durationPercent = 15,
        keyPointPrompts = [''Describe the current state of the industry/world'',
           ''Identify the challenge or opportunity'',
           ''Make the audience feel the urgency''],
        ts_notes = ''Paint a vivid picture. Use data to support your claims.''\<rparr>,
      \<lparr>ts_title = ''The Vision'', ts_type = MainSection, durationPercent = 25,
        keyPointPrompts = [''Describe what's possible'',
           ''Share examples of early success'',
           ''Connect vision to audience's aspirations''],
        ts_notes = ''Be bold but credible. Inspire action.''\<rparr>,
      \<lparr>ts_title = ''The Path Forward'', ts_type = MainSection, durationPercent = 20,
        keyPointPrompts = [''Outline concrete steps'',
           ''Address potential obstacles'',
           ''Share resources and support available''],
        ts_notes = ''Make it actionable. Don't just inspire - enable.''\<rparr>,
      \<lparr>ts_title = ''Call to Action'', ts_type = Conclusion, durationPercent = 10,
        keyPointPrompts = [''Summarize the key message'',
           ''Issue a clear call to action'',
           ''End with a memorable statement''],
        ts_notes = ''Circle back to your opening. Leave them energized.''\<rparr>,
      \<lparr>ts_title = ''Q&A'', ts_type = QA, durationPercent = 20,
        keyPointPrompts = [''Prepare for skeptical questions'',
           ''Have examples ready'',
           ''Bridge answers to key messages''],
        ts_notes = ''Stay composed. Every question is an opportunity.''\<rparr>],
     tips = [''Practice your opening until it's flawless'',
        ''Use personal stories to make abstract ideas concrete'',
        ''Vary your pace and volume for emphasis'',
        ''Make eye contact across different sections of the room'',
        ''End on time - respect your audience''],
     exampleHooks = [''Start with a bold prediction about the future'',
        ''Share a personal failure that led to an insight'',
        ''Ask a provocative question that challenges assumptions'',
        ''Present a striking statistic that reframes the conversation''],
     recommendedTheme = \<lparr>th_name = ''Keynote Bold'', th_type = Creative,
       primaryColor = Some ''#0f172a'', secondaryColor = Some ''#3b82f6'',
       fontFamily = Some ''Inter, sans-serif''\<rparr>\<rparr>"

definition technicalDeepDiveTemplate :: TalkTemplate where
  "technicalDeepDiveTemplate =
    \<lparr>tt_name = ''Technical Deep Dive'',
     description = ''Detailed exploration of a technical topic for expert audiences'',
     defaultDuration = 45,
     structure =
     [\<lparr>ts_title = ''Problem Context'', ts_type = Intro, durationPercent = 10,
        keyPointPrompts = [''Define the technical problem clearly'',
           ''Explain why existing solutions fall short'',
           ''Preview your approach''],
        ts_notes = ''Establish technical context quickly. Your audience knows the basics.''\<rparr>,
      \<lparr>ts_title = ''Background & Prior Art'', ts_type = MainSection, durationPercent = 15,
        keyPointPrompts = [''Review relevant prior work'',
           ''Explain key concepts needed'',
           ''Acknowledge trade-offs of existing approaches''],
        ts_notes = ''Be fair to alternatives. Show you've done your homework.''\<rparr>,
      \<lparr>ts_title = ''Solution Architecture'', ts_type = MainSection, durationPercent = 25,
        keyPointPrompts = [''Present your approach at a high level'',
           ''Explain key design decisions'',
           ''Discuss trade-offs you made''],
        ts_notes = (''Use diagrams. Explain the '' @ [CHR 0x22] @ ''why'' @ [CHR 0x22] @ '' not just the '' @ [CHR 0x22] @ ''what'' @ [CHR 0x22] @ ''.'')\<rparr>,
      \<lparr>ts_title = ''Implementation Details'', ts_type = MainSection, durationPercent = 20,
        keyPointPrompts = [''Show key code or configurations'',
           ''Highlight interesting challenges'',
           ''Demonstrate with working examples''],
        ts_notes = ''Don't show every line. Focus on insights.''\<rparr>,
      \<lparr>ts_title = ''Results & Lessons'', ts_type = Conclusion, durationPercent = 10,
        keyPointPrompts = [''Share benchmarks or outcomes'',
           ''Discuss what you learned'',
           ''Suggest next steps or future work''],
        ts_notes = ''Be honest about limitations. Share real numbers.''\<rparr>,
      \<lparr>ts_title = ''Q&A'', ts_type = QA, durationPercent = 20,
        keyPointPrompts = [''Prepare for edge case questions'',
           ''Know your performance numbers'',
           ''Be ready to discuss alternatives''],
        ts_notes = (''It's OK to say '' @ [CHR 0x22] @ ''I don't know, let me check.'' @ [CHR 0x22])\<rparr>],
     tips = [''Test all demos before the talk'',
        ''Have backup slides if live coding fails'',
        ''Explain your reasoning, not just your solution'',
        (''Be prepared for '' @ [CHR 0x22] @ ''what about X?'' @ [CHR 0x22] @ '' questions''),
        ''Leave code examples accessible for later''],
     exampleHooks = [''Show the end result first, then explain how you got there'',
        ''Share a war story of a production incident'',
        ''Present a performance comparison that surprised you'',
        ''Demonstrate a common mistake and its consequences''],
     recommendedTheme = \<lparr>th_name = ''Tech Modern'', th_type = Tech,
       primaryColor = Some ''#2563eb'', secondaryColor = Some ''#1e40af'',
       fontFamily = Some ''JetBrains Mono, monospace''\<rparr>\<rparr>"

definition workshopTemplate :: TalkTemplate where
  "workshopTemplate =
    \<lparr>tt_name = ''Workshop'',
     description = ''Hands-on, interactive learning session'',
     defaultDuration = 90,
     structure =
     [\<lparr>ts_title = ''Introduction & Setup'', ts_type = Intro, durationPercent = 10,
        keyPointPrompts = [''Welcome and introductions'',
           ''Learning objectives'',
           ''Verify everyone's setup works''],
        ts_notes = ''Don't skip setup verification - it saves time later.''\<rparr>,
      \<lparr>ts_title = ''Foundation Concepts'', ts_type = MainSection, durationPercent = 15,
        keyPointPrompts = [''Core concepts needed for exercises'',
           ''Quick demonstration'',
           ''Check for understanding''],
        ts_notes = ''Keep theory minimal. Get to hands-on quickly.''\<rparr>,
      \<lparr>ts_title = ''Guided Exercise 1'', ts_type = MainSection, durationPercent = 20,
        keyPointPrompts = [''Step-by-step walkthrough'',
           ''Common pitfalls to avoid'',
           ''Check-in point''],
        ts_notes = ''Walk around the room. Help those who are stuck.''\<rparr>,
      \<lparr>ts_title = ''Guided Exercise 2'', ts_type = MainSection, durationPercent = 20,
        keyPointPrompts = [''Build on previous exercise'',
           ''Introduce new concept'',
           ''Allow exploration time''],
        ts_notes = ''Have extension tasks for fast finishers.''\<rparr>,
      \<lparr>ts_title = ''Independent Practice'', ts_type = MainSection, durationPercent = 15,
        keyPointPrompts = [''Challenge exercise'',
           ''Minimal guidance'',
           ''Encourage peer help''],
        ts_notes = ''This is where real learning happens. Be available.''\<rparr>,
      \<lparr>ts_title = ''Wrap-up & Next Steps'', ts_type = Conclusion, durationPercent = 10,
        keyPointPrompts = [''Summarize what was learned'',
           ''Provide resources for continued learning'',
           ''Collect feedback''],
        ts_notes = ''Leave them with a clear path forward.''\<rparr>,
      \<lparr>ts_title = ''Q&A'', ts_type = QA, durationPercent = 10,
        keyPointPrompts = [''Address remaining questions'',
           ''Troubleshoot lingering issues'',
           ''Share contact info for follow-up''],
        ts_notes = ''Be available after for individual questions.''\<rparr>],
     tips = [''Test your setup instructions on a fresh machine'',
        ''Prepare for the 3 most common errors'',
        ''Have a backup plan for WiFi issues'',
        ''Bring helpers if possible'',
        ''Share materials in advance''],
     exampleHooks = [''Show what they'll be able to build by the end'',
        ''Share a quick win they can achieve in 5 minutes'',
        ''Ask about their experience level and adjust'',
        (''Start with a '' @ [CHR 0x22] @ ''why'' @ [CHR 0x22] @ '' story of someone who benefited'')],
     recommendedTheme = \<lparr>th_name = ''Workshop Clear'', th_type = Minimal,
       primaryColor = Some ''#059669'', secondaryColor = Some ''#047857'',
       fontFamily = Some ''system-ui, sans-serif''\<rparr>\<rparr>"

definition lightningTalkTemplate :: TalkTemplate where
  "lightningTalkTemplate =
    \<lparr>tt_name = ''Lightning Talk'',
     description = ''Short, focused presentation delivering one key insight'',
     defaultDuration = 5,
     structure =
     [\<lparr>ts_title = ''Hook'', ts_type = Intro, durationPercent = 20,
        keyPointPrompts = [''Grab attention immediately'',
           ''State the one thing you're going to teach''],
        ts_notes = ''No time for pleasantries. Start strong.''\<rparr>,
      \<lparr>ts_title = ''The Insight'', ts_type = MainSection, durationPercent = 50,
        keyPointPrompts = [''Explain your key point clearly'',
           ''Give one concrete example'',
           ''Make it memorable''],
        ts_notes = ''One point only. Go deep, not wide.''\<rparr>,
      \<lparr>ts_title = ''Takeaway'', ts_type = Conclusion, durationPercent = 30,
        keyPointPrompts = [''Reinforce the key message'',
           ''Give a clear call to action'',
           ''End with impact''],
        ts_notes = ''Leave them wanting more. Point to resources.''\<rparr>],
     tips = [''Practice to the second - you'll be cut off'',
        ''One slide per minute maximum'',
        (''No '' @ [CHR 0x22] @ ''one more thing'' @ [CHR 0x22] @ '' - stick to your point''),
        ''End early rather than rushing the ending'',
        ''Have a memorable last line prepared''],
     exampleHooks = [''Make a bold claim you'll prove in 5 minutes'',
        ''Show a surprising demo result'',
        ''Ask a question the audience can't answer'',
        ''Share a number that will shock them''],
     recommendedTheme = \<lparr>th_name = ''Lightning Fast'', th_type = Creative,
       primaryColor = Some ''#dc2626'', secondaryColor = Some ''#b91c1c'',
       fontFamily = Some ''Poppins, sans-serif''\<rparr>\<rparr>"

definition panelDiscussionTemplate :: TalkTemplate where
  "panelDiscussionTemplate =
    \<lparr>tt_name = ''Panel Discussion'',
     description = ''Moderated discussion with multiple speakers'',
     defaultDuration = 45,
     structure =
     [\<lparr>ts_title = ''Introductions'', ts_type = Intro, durationPercent = 10,
        keyPointPrompts = [''Brief self-introduction'',
           ''Your key perspective on the topic'',
           ''One thing you hope to discuss''],
        ts_notes = ''Be memorable but brief. Others need time too.''\<rparr>,
      \<lparr>ts_title = ''Opening Positions'', ts_type = MainSection, durationPercent = 20,
        keyPointPrompts = [''State your main position clearly'',
           ''Provide supporting evidence'',
           ''Acknowledge complexity''],
        ts_notes = ''Take a clear stance. It makes for better discussion.''\<rparr>,
      \<lparr>ts_title = ''Discussion'', ts_type = MainSection, durationPercent = 30,
        keyPointPrompts = [''Build on others' points'',
           ''Offer alternative perspectives'',
           ''Share relevant examples''],
        ts_notes = ''Listen actively. Engage, don't just wait to talk.''\<rparr>,
      \<lparr>ts_title = ''Audience Q&A'', ts_type = QA, durationPercent = 30,
        keyPointPrompts = [''Answer directly, then add nuance'',
           ''Invite other panelists to respond'',
           ''Connect to earlier discussion''],
        ts_notes = ''Keep answers focused. Leave room for others.''\<rparr>,
      \<lparr>ts_title = ''Closing Thoughts'', ts_type = Conclusion, durationPercent = 10,
        keyPointPrompts = [''One key takeaway'',
           ''What you hope the audience remembers'',
           ''Call to continued conversation''],
        ts_notes = ''Be concise. Don't repeat what others said.''\<rparr>],
     tips = [''Prepare 3-4 strong talking points, not a script'',
        ''Listen as much as you speak'',
        ''Disagree respectfully when you have a different view'',
        ''Let others finish before jumping in'',
        ''Use data to support opinions''],
     exampleHooks = [''Take a slightly contrarian position'',
        ''Reference a recent development in the field'',
        ''Share a personal experience that shaped your view'',
        ''Ask the other panelists a thoughtful question''],
     recommendedTheme = \<lparr>th_name = ''Panel Professional'', th_type = BusinessTheme,
       primaryColor = Some ''#1f2937'', secondaryColor = Some ''#374151'',
       fontFamily = Some ''Inter, sans-serif''\<rparr>\<rparr>"

fun getTemplate :: "TalkType \<Rightarrow> TalkTemplate" where
  "getTemplate Keynote = keynoteTemplate"
| "getTemplate TechnicalDeepDive = technicalDeepDiveTemplate"
| "getTemplate Workshop = workshopTemplate"
| "getTemplate LightningTalk = lightningTalkTemplate"
| "getTemplate PanelDiscussion = panelDiscussionTemplate"

text \<open>
  \<^verbatim>\<open>template.structure.map((section, index) => ...)\<close>: one outline section for each
  template section, numbered by its position.
\<close>

definition outlineSection :: "int \<Rightarrow> nat \<times> TemplateSection \<Rightarrow> OutlineSection" where
  "outlineSection duration = (\<lambda>(index, section).
     \<lparr>os_id = ''section-'' @ show_nat index,
      os_title = ts_title section,
      os_duration = Math_round (js_mul (js_div (durationPercent section) 100) (of_int duration)),
      os_order = index,
      os_type = ts_type section,
      os_keyPoints = keyPointPrompts section,
      subsections = None,
      os_notes = Some (ts_notes section)\<rparr>)"

definition generateOutlineFromTemplate :: "TalkTemplate \<Rightarrow> string \<Rightarrow> int \<Rightarrow> TalkOutline" where
  "generateOutlineFromTemplate template tpc duration =
     \<lparr>to_title = tpc,
      to_subtitle = None,
      totalDuration = duration,
      to_sections = map (outlineSection duration) (enumerate 0 (structure template)),
      learningObjectives = [],
      callToAction = None\<rparr>"

definition getAllTemplates :: "TalkTemplate list" where
  "getAllTemplates = [keynoteTemplate, technicalDeepDiveTemplate, workshopTemplate,
     lightningTalkTemplate, panelDiscussionTemplate]"

subsection \<open>String helpers\<close>

text \<open>\<^verbatim>\<open>a || b\<close> on strings: \<open>a\<close> unless it is undefined or empty.\<close>

definition orElse :: "string option \<Rightarrow> string \<Rightarrow> string" where
  "orElse a b = (case a of None \<Rightarrow> b | Some s \<Rightarrow> if s = [] then b else s)"

definition orElseOpt :: "string option \<Rightarrow> string option \<Rightarrow> string option" where
  "orElseOpt a b = (if truthy a then a else b)"

text \<open>\<^verbatim>\<open>xs.join(sep)\<close>.\<close>

fun join :: "string \<Rightarrow> string list \<Rightarrow> string" where
  "join sep [] = []"
| "join sep [x] = x"
| "join sep (x # y # ys) = x @ sep @ join sep (y # ys)"

text \<open>
  The white space of \<^verbatim>\<open>\s\<close> and the word characters of \<^verbatim>\<open>\b\<close>, on ASCII; \<open>length\<close>
  counts bytes, which is \<^verbatim>\<open>String.length\<close> on ASCII text.
\<close>

definition isSpace :: "char \<Rightarrow> bool" where
  "isSpace c = (let n = (of_char c :: nat) in (9 \<le> n \<and> n \<le> 13) \<or> n = 32)"

definition isWordChar :: "char \<Rightarrow> bool" where
  "isWordChar c = (let n = (of_char c :: nat) in
     (48 \<le> n \<and> n \<le> 57) \<or> (65 \<le> n \<and> n \<le> 90) \<or> n = 95 \<or> (97 \<le> n \<and> n \<le> 122))"

text \<open>\<^verbatim>\<open>toLowerCase\<close> on the ASCII letters.\<close>

definition lowerChar :: "char \<Rightarrow> char" where
  "lowerChar c = (let n = (of_char c :: nat) in if 65 \<le> n \<and> n \<le> 90 then char_of (n + 32) else c)"

definition toLowerCase :: "string \<Rightarrow> string" where
  "toLowerCase s = map lowerChar s"

text \<open>\<^verbatim>\<open>s.includes(kw)\<close>: \<open>kw\<close> occurs in \<open>s\<close>.\<close>

fun includes_str :: "string \<Rightarrow> string \<Rightarrow> bool" where
  "includes_str [] kw = (kw = [])"
| "includes_str (c # cs) kw = (prefix kw (c # cs) \<or> includes_str cs kw)"

text \<open>
  \<^verbatim>\<open>s.replace(/\s+/g, '-')\<close>: every maximal run of white space becomes one hyphen; the
  flag says whether the character before was white space.
\<close>

fun hyphenate :: "bool \<Rightarrow> string \<Rightarrow> string" where
  "hyphenate prev [] = []"
| "hyphenate prev (c # cs) =
     (if isSpace c then (if prev then hyphenate True cs else CHR ''-'' # hyphenate True cs)
      else c # hyphenate False cs)"

text \<open>
  \<^verbatim>\<open>s.split(/\s+/).filter((w) => w.length > 0).length\<close>: the number of maximal runs of
  characters that are not white space; the flag says whether a run is open.
\<close>

fun countWords :: "bool \<Rightarrow> string \<Rightarrow> nat" where
  "countWords inWord [] = 0"
| "countWords inWord (c # cs) =
     (if isSpace c then countWords False cs
      else (if inWord then 0 else 1) + countWords True cs)"

subsection \<open>Q&A and rehearsal types\<close>

datatype QACategory = CatTechnical | CatClarification | CatChallenge | CatExpansion | CatPractical

datatype Difficulty = Easy | Medium | Hard

text \<open>\<open>QAPairBody\<close> is \<^verbatim>\<open>Omit<QAPair, 'id'>\<close>; a \<open>QAPair\<close> adds the identifier.\<close>

record QAPairBody =
  question :: string
  category :: QACategory
  difficulty :: Difficulty
  suggestedAnswer :: string
  followUpQuestions :: "string list option"
  pitfalls :: "string list option"

record QAPair = QAPairBody +
  qa_id :: string

record QAPreparation =
  anticipatedQuestions :: "QAPair list"
  challengingTopics :: "string list"
  preparedResponses :: "(string \<times> string) list"
  redirectStrategies :: "string list"

datatype TimingStatus = NotStarted | InProgress | Completed

record RehearsalSectionTiming =
  rt_sectionId :: string
  targetDuration :: int
  actualDuration :: "rat option"
  status :: TimingStatus

datatype SectionTimingVerdict = OnTrack | TooFast | TooSlow

record SectionFeedback =
  sf_sectionId :: string
  timingStatus :: SectionTimingVerdict
  sf_suggestions :: "string list"

record OverallTiming =
  target :: int
  actual :: rat
  variance :: rat

record RehearsalFeedback =
  overallTiming :: OverallTiming
  sectionFeedback :: "SectionFeedback list"
  rf_suggestions :: "string list"
  strengthAreas :: "string list"
  improvementAreas :: "string list"

text \<open>A \<^verbatim>\<open>Date\<close> is its time value, the milliseconds since the epoch.\<close>

record RehearsalSession =
  rh_id :: string
  startTime :: nat
  endTime :: "nat option"
  rh_sections :: "RehearsalSectionTiming list"
  feedback :: RehearsalFeedback

subsection \<open>Q&A preparation\<close>

definition genericQuestions :: "QAPairBody list" where
  "genericQuestions =
    [\<lparr>question = ''Can you elaborate on that last point?'',
       category = CatClarification, difficulty = Easy,
       suggestedAnswer =
         ''Sure, let me break that down further. The key aspect is... [elaborate with an example]'',
       followUpQuestions = Some [''How does that apply in practice?''],
       pitfalls = Some [''Don't repeat the same words, provide new context'']\<rparr>,
     \<lparr>question = ''How did you get started with this topic?'',
       category = CatExpansion, difficulty = Easy,
       suggestedAnswer =
         ''Share your personal journey briefly, then connect it to why this matters for the audience.'',
       followUpQuestions = None,
       pitfalls = Some [''Don't make it too long or self-focused'']\<rparr>,
     \<lparr>question = ''What are the main challenges or limitations?'',
       category = CatChallenge, difficulty = Medium,
       suggestedAnswer =
         ''Acknowledge limitations honestly, then explain how to mitigate them.'',
       followUpQuestions = Some [''How do you work around those limitations?''],
       pitfalls = Some [''Don't be defensive'',
          ''Don't oversell or dismiss concerns'']\<rparr>,
     \<lparr>question = ''How does this compare to [alternative approach]?'',
       category = CatTechnical, difficulty = Hard,
       suggestedAnswer =
         ''Provide an honest comparison, acknowledging trade-offs. Each approach has strengths...'',
       followUpQuestions = None,
       pitfalls = Some [''Don't bash alternatives'',
          ''Be fair and objective'']\<rparr>,
     \<lparr>question = ''Where can I learn more about this?'',
       category = CatPractical, difficulty = Easy,
       suggestedAnswer =
         ''Have 2-3 resources ready: documentation, books, tutorials, or communities.'',
       followUpQuestions = None,
       pitfalls = Some [''Don't say you'll follow up if you won't'']\<rparr>]"

fun audienceQuestions :: "AudienceType \<Rightarrow> QAPairBody list" where
  "audienceQuestions Technical =
    [\<lparr>question = ''What's the performance impact of this approach?'',
       category = CatTechnical, difficulty = Hard,
       suggestedAnswer =
         ''Provide benchmarks if available, or explain the theoretical complexity and trade-offs.'',
       followUpQuestions = None,
       pitfalls = Some [''Don't make up numbers'',
          ''Admit if you haven't measured'']\<rparr>,
     \<lparr>question = ''How does this scale in production?'',
       category = CatTechnical, difficulty = Hard,
       suggestedAnswer =
         ''Share real-world experience or case studies. Discuss scaling considerations.'',
       followUpQuestions = Some [''What was your largest deployment?''],
       pitfalls = Some [''Be honest about scale you've actually handled'']\<rparr>]"
| "audienceQuestions Academic =
    [\<lparr>question = ''What's your methodology for this research?'',
       category = CatTechnical, difficulty = Medium,
       suggestedAnswer =
         ''Explain your methodology clearly, including sample size, variables, and controls.'',
       followUpQuestions = None,
       pitfalls = Some [''Don't oversimplify if it would misrepresent your work'']\<rparr>,
     \<lparr>question = ''What are the limitations of this study?'',
       category = CatChallenge, difficulty = Medium,
       suggestedAnswer =
         ''Acknowledge limitations proactively. Discuss how future work could address them.'',
       followUpQuestions = None,
       pitfalls = Some [''Don't be defensive about limitations'']\<rparr>]"
| "audienceQuestions Business =
    [\<lparr>question = ''What's the ROI on implementing this?'',
       category = CatPractical, difficulty = Medium,
       suggestedAnswer =
         ''Provide concrete examples or case studies. Discuss both direct and indirect benefits.'',
       followUpQuestions = None,
       pitfalls = Some [''Don't make up numbers'',
          ''Acknowledge context matters'']\<rparr>,
     \<lparr>question = ''How long until we see results?'',
       category = CatPractical, difficulty = Medium,
       suggestedAnswer =
         ''Give realistic timelines. Discuss quick wins vs long-term benefits.'',
       followUpQuestions = None,
       pitfalls = Some [''Don't overpromise on timelines'']\<rparr>]"
| "audienceQuestions General =
    [\<lparr>question = ''How does this affect everyday people?'',
       category = CatExpansion, difficulty = Easy,
       suggestedAnswer =
         ''Connect to relatable, everyday scenarios. Use analogies.'',
       followUpQuestions = None,
       pitfalls = Some [''Don't be condescending'',
          ''Use inclusive examples'']\<rparr>,
     \<lparr>question = ''Can you give a simple example?'',
       category = CatClarification, difficulty = Easy,
       suggestedAnswer =
         ''Have 2-3 simple analogies or examples ready for key concepts.'',
       followUpQuestions = None,
       pitfalls = Some [''Don't oversimplify to the point of inaccuracy'']\<rparr>]"

definition generateRedirectStrategies :: "string list" where
  "generateRedirectStrategies =
    [(''Bridge to your key message: '' @ [CHR 0x22] @ ''That's interesting, and what's even more relevant is...'' @ [CHR 0x22]),
     (''Acknowledge and defer: '' @ [CHR 0x22] @ ''Great question. Let me address that after we finish, as it deserves full attention.'' @ [CHR 0x22]),
     (''Turn to the audience: '' @ [CHR 0x22] @ ''That's a great point. Has anyone else encountered this?'' @ [CHR 0x22]),
     (''Provide partial answer: '' @ [CHR 0x22] @ ''I can speak to part of that. The aspect I'm most familiar with is...'' @ [CHR 0x22]),
     (''Admit boundaries: '' @ [CHR 0x22] @ ''That's outside my area of expertise, but I can point you to some resources.'' @ [CHR 0x22]),
     (''Reframe the question: '' @ [CHR 0x22] @ ''If I understand correctly, you're asking about... Let me address that.'' @ [CHR 0x22])]"

definition controversialKeywords :: "string list" where
  "controversialKeywords = [''best'', ''only'', ''always'', ''never'', ''wrong'']"

definition practiceBase :: "string list" where
  "practiceBase =
    [''Record yourself and watch for filler words and nervous habits'',
     ''Practice in front of a mirror to observe body language'',
     ''Do a full run-through at least 3 times before the event'',
     ''Practice with different time constraints (tight vs relaxed)'']"

fun practiceForTalkType :: "TalkType \<Rightarrow> string list" where
  "practiceForTalkType Keynote =
    [''Practice your opening 10 times - it sets the tone'',
     ''Work on dramatic pauses and emphasis'',
     ''Rehearse the call to action until it feels natural'']"
| "practiceForTalkType TechnicalDeepDive =
    [''Test all demos multiple times'',
     ''Have backup slides if live coding fails'',
     ''Practice explaining complex concepts simply'']"
| "practiceForTalkType Workshop =
    [''Time each exercise carefully'',
     ''Prepare for common errors and questions'',
     ''Have extension activities for fast finishers'']"
| "practiceForTalkType LightningTalk =
    [''Every second counts - time it precisely'',
     ''Cut ruthlessly - one point only'',
     ''Practice transitioning smoothly'']"
| "practiceForTalkType PanelDiscussion =
    [''Prepare 3-4 strong talking points'',
     ''Practice active listening and building on others' points'',
     ''Have data ready to support your positions'']"

text \<open>\<^verbatim>\<open>{ ...q, id }\<close>: the fields of \<open>q\<close> and the identifier.\<close>

definition withId :: "QAPairBody \<Rightarrow> string \<Rightarrow> QAPair" where
  "withId q i =
     \<lparr>question = question q, category = category q, difficulty = difficulty q,
      suggestedAnswer = suggestedAnswer q, followUpQuestions = followUpQuestions q,
      pitfalls = pitfalls q, qa_id = i\<rparr>"

text \<open>
  The loop state of \<^verbatim>\<open>generateAnticipatedQuestions\<close> is the array \<^verbatim>\<open>questions\<close> and the
  counter \<^verbatim>\<open>questionId\<close>; \<open>pushQuestion\<close> is
  \<^verbatim>\<open>questions.push({ ...q, id: `q-${questionId++}` })\<close>.
\<close>

definition pushQuestion :: "QAPair list \<times> nat \<Rightarrow> QAPairBody \<Rightarrow> QAPair list \<times> nat" where
  "pushQuestion st q = (fst st @ [withId q (''q-'' @ show_nat (snd st))], Suc (snd st))"

definition sectionQuestion :: "OutlineSection \<Rightarrow> QAPairBody" where
  "sectionQuestion section =
     \<lparr>question = ''Can you tell us more about '' @ [CHR 0x22] @ os_keyPoints section ! 0 @ [CHR 0x22] @ ''?'',
      category = CatExpansion, difficulty = Medium,
      suggestedAnswer =
        ''Expand with additional details, examples, or context about '' @ os_keyPoints section ! 0 @ ''.'',
      followUpQuestions = None,
      pitfalls = Some [''Don't just repeat what you said'']\<rparr>"

definition pushSectionQuestion :: "QAPair list \<times> nat \<Rightarrow> OutlineSection \<Rightarrow> QAPair list \<times> nat" where
  "pushSectionQuestion st section =
     (if os_type section = MainSection \<and> length (os_keyPoints section) > 0
      then pushQuestion st (sectionQuestion section) else st)"

definition generateAnticipatedQuestions :: "TalkConfig \<Rightarrow> TalkOutline \<Rightarrow> QAPair list" where
  "generateAnticipatedQuestions cfg outl =
     (let st0 = ([], 1);
          st1 = foldl pushQuestion st0 genericQuestions;
          st2 = foldl pushQuestion st1 (audienceQuestions (audience cfg));
          st3 = foldl pushSectionQuestion st2 (to_sections outl)
      in fst st3)"

definition challengingPoints :: "string list \<Rightarrow> string list" where
  "challengingPoints points =
     map (\<lambda>point. [CHR 0x22] @ point @ [CHR 0x22] @ '' - absolute claims may be challenged'')
       (filter (\<lambda>point. list_ex (\<lambda>kw. includes_str (toLowerCase point) kw) controversialKeywords)
          points)"

definition identifyChallengingTopics :: "TalkOutline \<Rightarrow> string list" where
  "identifyChallengingTopics outl =
     concat (map (\<lambda>section.
         (if length (os_keyPoints section) > 4
          then [os_title section @ '' - complex with many sub-points''] else [])
         @ challengingPoints (os_keyPoints section))
       (to_sections outl))"

definition createQAPreparation :: "TalkConfig \<Rightarrow> TalkOutline \<Rightarrow> QAPreparation" where
  "createQAPreparation cfg outl =
     \<lparr>anticipatedQuestions = generateAnticipatedQuestions cfg outl,
      challengingTopics = identifyChallengingTopics outl,
      preparedResponses = [],
      redirectStrategies = generateRedirectStrategies\<rparr>"

subsection \<open>Rehearsal sessions\<close>

text \<open>
  \<open>now\<close> is the value of \<^verbatim>\<open>Date.now()\<close> and \<open>start\<close> the time value of \<^verbatim>\<open>new Date()\<close> at
  the call.
\<close>

definition createRehearsalSession :: "nat \<Rightarrow> nat \<Rightarrow> TalkOutline \<Rightarrow> RehearsalSession" where
  "createRehearsalSession now start outl =
     \<lparr>rh_id = ''rehearsal-'' @ show_nat now,
      startTime = start,
      endTime = None,
      rh_sections = map (\<lambda>section.
          \<lparr>rt_sectionId = os_id section,
           targetDuration = os_duration section * 60,
           actualDuration = None,
           status = NotStarted\<rparr>) (to_sections outl),
      feedback =
        \<lparr>overallTiming = \<lparr>target = totalDuration outl * 60, actual = 0, variance = 0\<rparr>,
         sectionFeedback = [],
         rf_suggestions = [],
         strengthAreas = [],
         improvementAreas = []\<rparr>\<rparr>"

definition updateSectionTiming :: "RehearsalSession \<Rightarrow> string \<Rightarrow> rat \<Rightarrow> RehearsalSession" where
  "updateSectionTiming session sectionId actualDur =
     session\<lparr>rh_sections := map (\<lambda>section.
         if rt_sectionId section = sectionId
         then section\<lparr>actualDuration := Some actualDur, status := Completed\<rparr>
         else section) (rh_sections session)\<rparr>"

definition generatePracticeSuggestions :: "TalkConfig \<Rightarrow> string list" where
  "generatePracticeSuggestions cfg = practiceBase @ practiceForTalkType (talkType cfg)"

subsection \<open>Ideation\<close>

definition baseQuestionsTail :: "string list" where
  "baseQuestionsTail =
    [''What unique perspective or experience do you bring to this topic?'',
     ''What do you want the audience to DO after your talk?'',
     ''What common misconceptions about this topic should be addressed?'',
     ''What's the most surprising or counterintuitive aspect of this topic?'']"

fun discoveryAudienceQuestions :: "AudienceType \<Rightarrow> string list" where
  "discoveryAudienceQuestions Technical =
    [''What technical problems does this solve?'',
     ''What alternatives exist and why is this approach better?'',
     ''What are the main implementation challenges?'']"
| "discoveryAudienceQuestions Academic =
    [''What research gaps does this address?'',
     ''What methodology will you present?'',
     ''What are the implications for future research?'']"
| "discoveryAudienceQuestions Business =
    [''What business outcomes does this enable?'',
     ''What's the ROI or competitive advantage?'',
     ''What case studies or success stories can you share?'']"
| "discoveryAudienceQuestions General =
    [''Why should someone unfamiliar with this care?'',
     ''What everyday analogy explains this concept?'',
     ''How does this affect people's daily lives?'']"

fun refinementsForTalkType :: "TalkType \<Rightarrow> string list" where
  "refinementsForTalkType Keynote =
    [''Frame around a bold vision or prediction'',
     ''Connect to broader industry trends'',
     ''Include a personal journey or transformation story'']"
| "refinementsForTalkType TechnicalDeepDive =
    [''Focus on implementation details and gotchas'',
     ''Include live coding or detailed examples'',
     ''Discuss performance characteristics and benchmarks'']"
| "refinementsForTalkType Workshop =
    [''Define clear learning objectives'',
     ''Plan hands-on exercises at regular intervals'',
     ''Prepare materials for different skill levels'']"
| "refinementsForTalkType LightningTalk =
    [''Pick the single most surprising insight'',
     ''Use a memorable hook or demo'',
     ''End with a clear call to action'']"
| "refinementsForTalkType PanelDiscussion =
    [''Prepare strong opening position'',
     ''Identify areas of potential debate'',
     ''Have data/examples ready to support points'']"


definition generateDiscoveryQuestions :: "TalkConfig \<Rightarrow> string list" where
  "generateDiscoveryQuestions cfg =
     ((''What inspired you to speak about '' @ [CHR 0x22] @ topic cfg @ [CHR 0x22] @ ''?'')
        # baseQuestionsTail)
     @ discoveryAudienceQuestions (audience cfg)"

definition refinementsForDuration :: "string \<Rightarrow> int \<Rightarrow> string list" where
  "refinementsForDuration tpc duration =
     (if duration \<le> 10 then
        [''Focus on ONE specific aspect of '' @ [CHR 0x22] @ tpc @ [CHR 0x22] @ '' for a lightning talk'',
         ''Consider framing as '' @ [CHR 0x22] @ ''The Most Important Thing About '' @ tpc @ [CHR 0x22],
         ''Try a problem-solution format: one problem, one solution'']
      else if duration \<le> 30 then
        [''Cover 2-3 key insights about '' @ [CHR 0x22] @ tpc @ [CHR 0x22],
         ''Consider a '' @ [CHR 0x22] @ ''lessons learned'' @ [CHR 0x22] @ '' or '' @ [CHR 0x22]
            @ ''mistakes to avoid'' @ [CHR 0x22] @ '' angle'',
         ''Frame around a compelling story or case study'']
      else
        [''Deep dive with comprehensive coverage of '' @ [CHR 0x22] @ tpc @ [CHR 0x22],
         ''Include hands-on exercises or demos'',
         ''Cover both theory and practical application''])"

definition suggestTopicRefinements :: "string \<Rightarrow> TalkType \<Rightarrow> int \<Rightarrow> string list" where
  "suggestTopicRefinements tpc tt duration =
     refinementsForDuration tpc duration @ refinementsForTalkType tt"

subsection \<open>Research types\<close>

datatype Relevance = High | MediumRelevance | Low

record ResearchSource =
  rs_title :: string
  url :: "string option"
  rs_author :: "string option"
  rs_date :: "string option"
  relevance :: Relevance
  summary :: string
  rs_keyPoints :: "string list"

record ResearchResult =
  refinedTopic :: string
  topicSuggestions :: "string list"
  keyConcepts :: "string list"
  sources :: "ResearchSource list"
  potentialBiases :: "string list"
  audienceConsiderations :: "string list"

subsection \<open>Outline validation\<close>

record TimingValidation =
  tv_isValid :: bool
  totalAllocated :: int
  difference :: int
  tv_warnings :: "string list"

definition sectionTimingWarnings :: "TalkOutline \<Rightarrow> OutlineSection \<Rightarrow> string list" where
  "sectionTimingWarnings outl section =
     (if os_duration section < 1 \<and> os_type section \<noteq> Transition
      then [''Section '' @ [CHR 0x22] @ os_title section @ [CHR 0x22] @ '' is very short (''
              @ show_int (os_duration section) @ '' min)'']
      else [])
     @
     (if rat_of_int (os_duration section) > rat_of_int (totalDuration outl) * (1 / 2)
         \<and> os_type section \<noteq> MainSection
      then [''Section '' @ [CHR 0x22] @ os_title section @ [CHR 0x22]
              @ '' takes more than 50% of total time'']
      else [])"

definition validateOutlineTiming :: "TalkOutline \<Rightarrow> TimingValidation" where
  "validateOutlineTiming outl =
     (let total = foldl (\<lambda>sum section. sum + os_duration section) 0 (to_sections outl);
          diff = totalDuration outl - total;
          warnings =
            (if \<bar>diff\<bar> > 2
             then [''Timing mismatch: Total duration is '' @ show_int (totalDuration outl)
                     @ '' min but sections total '' @ show_int total @ '' min'']
             else [])
            @ concat (map (sectionTimingWarnings outl) (to_sections outl))
      in \<lparr>tv_isValid = (length warnings = 0), totalAllocated = total, difference = diff,
          tv_warnings = warnings\<rparr>)"

definition keyPointSuggestions :: "OutlineSection \<Rightarrow> string list" where
  "keyPointSuggestions section =
     (if length (os_keyPoints section) = 0
      then [''Add key points to section '' @ [CHR 0x22] @ os_title section @ [CHR 0x22]]
      else [])
     @
     (if length (os_keyPoints section) > 6
      then [''Section '' @ [CHR 0x22] @ os_title section @ [CHR 0x22]
              @ '' has too many points - consider consolidating'']
      else [])"

definition suggestOutlineImprovements :: "TalkOutline \<Rightarrow> string list" where
  "suggestOutlineImprovements outl =
     (let mainSections = filter (\<lambda>s. os_type s = MainSection) (to_sections outl);
          hasTransitions = list_ex (\<lambda>s. os_type s = Transition) (to_sections outl)
      in
        (if length (learningObjectives outl) = 0
         then [''Add 2-3 clear learning objectives for your audience''] else [])
        @ (if \<not> truthy (callToAction outl)
           then [''Add a specific call to action for your conclusion''] else [])
        @ (if length mainSections > 4
           then [''Consider consolidating main sections - more than 4 can overwhelm''] else [])
        @ (if length mainSections < 2 \<and> totalDuration outl > 15
           then [''Consider breaking your main content into multiple sections''] else [])
        @ concat (map keyPointSuggestions (to_sections outl))
        @ (if \<not> hasTransitions \<and> totalDuration outl > 20
           then [''Consider adding transition slides/moments between major sections'']
           else []))"

subsection \<open>Content types and the script skeleton\<close>

record SpeakerNote =
  sn_sectionId :: string
  sn_content :: string
  timing :: string
  emphasis :: "string list option"
  pausePoints :: "string list option"

record CodeExample =
  language :: string
  ce_code :: string
  explanation :: string
  highlightLines :: "int list option"

record Transitions =
  tr_in :: "string option"
  tr_out :: "string option"

record ScriptSection =
  ss_sectionId :: string
  ss_title :: string
  ss_content :: string
  transitions :: Transitions
  codeExamples :: "CodeExample list option"
  anecdotes :: "string list option"

record Script =
  sc_title :: string
  introduction :: string
  sc_sections :: "ScriptSection list"
  conclusion :: string
  sc_speakerNotes :: "SpeakerNote list"

definition createScriptTemplate :: "TalkOutline \<Rightarrow> Script" where
  "createScriptTemplate outl =
     \<lparr>sc_title = to_title outl,
      introduction = [],
      sc_sections = map (\<lambda>section.
          \<lparr>ss_sectionId = os_id section,
           ss_title = os_title section,
           ss_content = [],
           transitions = \<lparr>tr_in = None, tr_out = None\<rparr>,
           codeExamples = Some [],
           anecdotes = Some []\<rparr>)
        (filter (\<lambda>s. os_type s \<noteq> QA) (to_sections outl)),
      conclusion = [],
      sc_speakerNotes = map (\<lambda>section.
          \<lparr>sn_sectionId = os_id section,
           sn_content = orElse (os_notes section) [],
           timing = show_int (os_duration section) @ '' minutes'',
           emphasis = Some [],
           pausePoints = Some []\<rparr>)
        (to_sections outl)\<rparr>"

subsection \<open>Content validation\<close>

definition calculateReadingTime :: "string \<Rightarrow> int" where
  "calculateReadingTime content =
     Math_ceil (js_div (of_nat (countWords False content)) 150)"

text \<open>
  The matches of \<^verbatim>\<open>/\b(API|SDK|algorithm|protocol|framework)\b/gi\<close>. \<open>termAt s\<close> is the
  alternative that matches at the start of \<open>s\<close> with a word boundary after it, and
  \<open>countTerms k prev s\<close> counts the matches in \<open>s\<close>, where \<open>k\<close> characters of a match are
  still to be passed and \<open>prev\<close> says whether the character before is a word character.
\<close>

definition technicalTermWords :: "string list" where
  "technicalTermWords = [''api'', ''sdk'', ''algorithm'', ''protocol'', ''framework'']"

definition termAt :: "string \<Rightarrow> string option" where
  "termAt s = find (\<lambda>w. toLowerCase (take (length w) s) = w \<and>
       (case drop (length w) s of [] \<Rightarrow> True | c # _ \<Rightarrow> \<not> isWordChar c))
     technicalTermWords"

fun countTerms :: "nat \<Rightarrow> bool \<Rightarrow> string \<Rightarrow> nat" where
  "countTerms k prev [] = 0"
| "countTerms k prev (c # cs) =
     (if k > 0 then countTerms (k - 1) (isWordChar c) cs
      else case (if prev then None else termAt (c # cs)) of
             Some w \<Rightarrow> Suc (countTerms (length w - 1) (isWordChar c) cs)
           | None \<Rightarrow> countTerms 0 (isWordChar c) cs)"

record ContentValidation =
  cv_isValid :: bool
  issues :: "string list"
  cv_suggestions :: "string list"

definition validateContent :: "Script \<Rightarrow> TalkConfig \<Rightarrow> ContentValidation" where
  "validateContent scr cfg =
     (let issueList =
            (if introduction scr = [] \<or> length (introduction scr) < 100
             then [''Introduction is too short or missing''] else [])
            @ (if conclusion scr = [] \<or> length (conclusion scr) < 100
               then [''Conclusion is too short or missing''] else [])
            @ concat (map (\<lambda>section.
                if ss_content section = [] \<or> length (ss_content section) < 50
                then [''Section '' @ [CHR 0x22] @ ss_title section @ [CHR 0x22] @ '' needs more content'']
                else [])
              (sc_sections scr));
          totalContent = join '' ''
            ([introduction scr] @ map ss_content (sc_sections scr) @ [conclusion scr]);
          readingTime = calculateReadingTime totalContent;
          lengthSuggestions =
            (if rat_of_int readingTime > js_mul (of_int (cfg_duration cfg)) (fl (12 / 10))
             then [''Content may be too long (est. '' @ show_int readingTime @ '' min for ''
                     @ show_int (cfg_duration cfg) @ '' min talk)'']
             else if rat_of_int readingTime < js_mul (of_int (cfg_duration cfg)) (fl (8 / 10))
             then [''Content may be too short (est. '' @ show_int readingTime @ '' min for ''
                     @ show_int (cfg_duration cfg) @ '' min talk)'']
             else []);
          jargonSuggestions =
            (if audience cfg = General \<and> countTerms 0 False totalContent > 5
             then [''Consider explaining or reducing technical jargon for general audience'']
             else [])
      in \<lparr>cv_isValid = (length issueList = 0), issues = issueList,
          cv_suggestions = lengthSuggestions @ jargonSuggestions\<rparr>)"

subsection \<open>Slide types\<close>

datatype SlideLayout =
  LTitle | LSectionHeader | LContent | LTwoColumn | LImageFull | LCode | LQuote
  | LBulletPoints | LComparison | LTimeline | LQa

record Quote =
  q_text :: string
  attribution :: "string option"

record Slide =
  sl_id :: string
  sl_order :: nat
  layout :: SlideLayout
  sl_title :: "string option"
  sl_subtitle :: "string option"
  sl_content :: "string option"
  bulletPoints :: "string list option"
  imagePrompt :: "string option"
  sl_code :: "CodeExample option"
  quote :: "Quote option"
  sl_speakerNotes :: string
  sl_duration :: rat

record SlideMetadata =
  totalSlides :: nat
  estimatedDuration :: rat
  generatedAt :: string
  version :: string

record SlideDeck =
  sd_title :: string
  sd_author :: "string option"
  sd_date :: "string option"
  sd_theme :: SlideTheme
  slides :: "Slide list"
  metadata :: SlideMetadata

record ExportOptions =
  eo_format :: ExportFormat
  includeNotes :: bool
  includeTimings :: bool
  eo_theme :: "SlideTheme option"

record ExportResult =
  er_format :: ExportFormat
  er_content :: string
  filename :: string
  mimeType :: string

subsection \<open>Building the slide deck\<close>

fun DEFAULT_THEMES :: "ThemeType \<Rightarrow> SlideTheme" where
  "DEFAULT_THEMES Tech =
     \<lparr>th_name = ''Tech Modern'', th_type = Tech,
      primaryColor = Some ''#2563eb'', secondaryColor = Some ''#1e40af'',
      fontFamily = Some ''JetBrains Mono, monospace''\<rparr>"
| "DEFAULT_THEMES BusinessTheme =
     \<lparr>th_name = ''Corporate Clean'', th_type = BusinessTheme,
      primaryColor = Some ''#1f2937'', secondaryColor = Some ''#374151'',
      fontFamily = Some ''Inter, sans-serif''\<rparr>"
| "DEFAULT_THEMES AcademicTheme =
     \<lparr>th_name = ''Academic Classic'', th_type = AcademicTheme,
      primaryColor = Some ''#7c3aed'', secondaryColor = Some ''#5b21b6'',
      fontFamily = Some ''Crimson Pro, serif''\<rparr>"
| "DEFAULT_THEMES Minimal =
     \<lparr>th_name = ''Minimal Light'', th_type = Minimal,
      primaryColor = Some ''#000000'', secondaryColor = Some ''#6b7280'',
      fontFamily = Some ''system-ui, sans-serif''\<rparr>"
| "DEFAULT_THEMES Creative =
     \<lparr>th_name = ''Creative Bold'', th_type = Creative,
      primaryColor = Some ''#ec4899'', secondaryColor = Some ''#8b5cf6'',
      fontFamily = Some ''Poppins, sans-serif''\<rparr>"

text \<open>\<open>SlideOptions\<close> is \<^verbatim>\<open>Partial<Slide> & { order: number }\<close>.\<close>

record SlideOptions =
  so_order :: nat
  so_layout :: "SlideLayout option"
  so_title :: "string option"
  so_subtitle :: "string option"
  so_content :: "string option"
  so_bulletPoints :: "string list option"
  so_imagePrompt :: "string option"
  so_code :: "CodeExample option"
  so_quote :: "Quote option"
  so_speakerNotes :: "string option"
  so_duration :: "rat option"

definition slideOptions :: "nat \<Rightarrow> SlideOptions" where
  "slideOptions order =
     \<lparr>so_order = order, so_layout = None, so_title = None, so_subtitle = None,
      so_content = None, so_bulletPoints = None, so_imagePrompt = None, so_code = None,
      so_quote = None, so_speakerNotes = None, so_duration = None\<rparr>"

text \<open>\<open>now\<close> is the value of \<^verbatim>\<open>Date.now()\<close> when the slide is created.\<close>

definition createSlide :: "nat \<Rightarrow> SlideOptions \<Rightarrow> Slide" where
  "createSlide now options =
     \<lparr>sl_id = ''slide-'' @ show_nat (so_order options) @ ''-'' @ show_nat now,
      sl_order = so_order options,
      layout = (case so_layout options of None \<Rightarrow> LContent | Some l \<Rightarrow> l),
      sl_title = so_title options,
      sl_subtitle = so_subtitle options,
      sl_content = so_content options,
      bulletPoints = so_bulletPoints options,
      imagePrompt = so_imagePrompt options,
      sl_code = so_code options,
      quote = so_quote options,
      sl_speakerNotes = orElse (so_speakerNotes options) [],
      sl_duration = (case so_duration options of None \<Rightarrow> 60 | Some d \<Rightarrow> if d = 0 then 60 else d)\<rparr>"

definition selectThemeForAudience :: "AudienceType \<Rightarrow> SlideTheme" where
  "selectThemeForAudience a =
     DEFAULT_THEMES (case a of Technical \<Rightarrow> Tech | Academic \<Rightarrow> AcademicTheme
                     | Business \<Rightarrow> BusinessTheme | General \<Rightarrow> Minimal)"

definition createCodeSlide :: "nat \<Rightarrow> nat \<Rightarrow> string \<Rightarrow> CodeExample \<Rightarrow> string \<Rightarrow> Slide" where
  "createCodeSlide now order ttl cd notes =
     createSlide now ((slideOptions order)
       \<lparr>so_layout := Some LCode, so_title := Some ttl, so_code := Some cd,
        so_speakerNotes := Some notes, so_duration := Some 90\<rparr>)"

definition createQuoteSlide :: "nat \<Rightarrow> nat \<Rightarrow> string \<Rightarrow> string \<Rightarrow> string \<Rightarrow> Slide" where
  "createQuoteSlide now order quoteText attr notes =
     createSlide now ((slideOptions order)
       \<lparr>so_layout := Some LQuote, so_quote := Some \<lparr>q_text = quoteText, attribution = Some attr\<rparr>,
        so_speakerNotes := Some notes, so_duration := Some 45\<rparr>)"

text \<open>
  The loop state of \<^verbatim>\<open>createSlideDeckTemplate\<close> is the array \<^verbatim>\<open>slides\<close> and the counter
  \<^verbatim>\<open>slideOrder\<close>. \<open>pushSlide\<close> is \<^verbatim>\<open>slides.push(createSlide({ order: slideOrder++, ... }))\<close>;
  \<open>clock k\<close> is the value of \<^verbatim>\<open>Date.now()\<close> read by the call that creates slide \<open>k\<close>.
\<close>

definition pushSlide ::
  "(nat \<Rightarrow> nat) \<Rightarrow> Slide list \<times> nat \<Rightarrow> (SlideOptions \<Rightarrow> SlideOptions) \<Rightarrow> Slide list \<times> nat" where
  "pushSlide clock st fill =
     (fst st @ [createSlide (clock (snd st)) (fill (slideOptions (snd st)))], Suc (snd st))"

text \<open>
  \<^verbatim>\<open>for (let i = 0; i < n; i += size) points = keyPoints.slice(i, i + size)\<close>: the
  consecutive groups of \<open>n\<close> points. The loop runs only for a non-empty list, where
  the group size is at least 1.
\<close>

function chunksOf :: "nat \<Rightarrow> 'a list \<Rightarrow> 'a list list" where
  "chunksOf n xs =
     (if n = 0 \<or> xs = [] then [] else take n xs # chunksOf n (drop n xs))"
  by pat_completeness auto
termination
  by (relation "measure (\<lambda>(n, xs). length xs)") auto

declare chunksOf.simps [simp del]

definition js_add :: "rat \<Rightarrow> rat \<Rightarrow> rat" where
  "js_add a b = fl (a + b)"

definition pushSectionSlides ::
  "(nat \<Rightarrow> nat) \<Rightarrow> Slide list \<times> nat \<Rightarrow> OutlineSection \<Rightarrow> Slide list \<times> nat" where
  "pushSectionSlides clock st section =
     (let st1 = pushSlide clock st (\<lambda>options. options
            \<lparr>so_layout := Some LSectionHeader,
             so_title := Some (os_title section),
             so_speakerNotes := Some (''Transition to '' @ os_title section @ ''. ''
                                        @ orElse (os_notes section) []),
             so_duration := Some 15\<rparr>)
      in if length (os_keyPoints section) > 0 then
           (let pointsPerSlide = min 4 (length (os_keyPoints section));
                slideCount = Math_ceil (js_div (of_nat (length (os_keyPoints section)))
                                          (of_nat pointsPerSlide))
            in foldl (\<lambda>s points. pushSlide clock s (\<lambda>options. options
                   \<lparr>so_layout := Some LBulletPoints,
                    so_title := Some (os_title section),
                    so_bulletPoints := Some points,
                    so_speakerNotes := Some (''Cover these points: '' @ join ''; '' points),
                    so_duration := Some (js_div (of_int (os_duration section * 60))
                                           (of_int slideCount))\<rparr>))
                 st1 (chunksOf pointsPerSlide (os_keyPoints section)))
         else st1)"

text \<open>
  \<open>iso1\<close> and \<open>iso2\<close> are the two values of \<^verbatim>\<open>new Date().toISOString()\<close> read for the
  date and for the generation time stamp.
\<close>

definition createSlideDeckTemplate ::
  "(nat \<Rightarrow> nat) \<Rightarrow> string \<Rightarrow> string \<Rightarrow> TalkConfig \<Rightarrow> TalkOutline \<Rightarrow> SlideDeck" where
  "createSlideDeckTemplate clock iso1 iso2 cfg outl =
     (let st0 = ([], 0);
          st1 = pushSlide clock st0 (\<lambda>options. options
                  \<lparr>so_layout := Some LTitle,
                   so_title := Some (to_title outl),
                   so_subtitle := orElseOpt (to_subtitle outl) (speakerName cfg),
                   so_speakerNotes :=
                     Some ''Introduce yourself. Wait for audience attention before starting.'',
                   so_duration := Some 30\<rparr>);
          st2 = foldl (pushSectionSlides clock) st1 (to_sections outl);
          st3 = (if list_ex (\<lambda>s. os_type s = QA) (to_sections outl)
                 then pushSlide clock st2 (\<lambda>options. options
                        \<lparr>so_layout := Some LQa,
                         so_title := Some ''Questions?'',
                         so_speakerNotes :=
                           Some ''Open the floor for questions. Have backup topics ready.'',
                         so_duration := Some 60\<rparr>)
                 else st2);
          st4 = pushSlide clock st3 (\<lambda>options. options
                  \<lparr>so_layout := Some LTitle,
                   so_title := Some ''Thank You'',
                   so_subtitle :=
                     Some (orElse (callToAction outl) ''Questions and discussion welcome''),
                   so_speakerNotes :=
                     Some ''Thank the audience. Remind them of the call to action.'',
                   so_duration := Some 15\<rparr>);
          deckSlides = fst st4
      in \<lparr>sd_title = to_title outl,
          sd_author = speakerName cfg,
          sd_date = Some (takeWhile (\<lambda>c. c \<noteq> CHR ''T'') iso1),
          sd_theme = selectThemeForAudience (audience cfg),
          slides = deckSlides,
          metadata =
            \<lparr>totalSlides = length deckSlides,
             estimatedDuration = foldl (\<lambda>sum s. js_add sum (sl_duration s)) 0 deckSlides,
             generatedAt = iso2,
             version = ''1.0.0''\<rparr>\<rparr>)"

subsection \<open>Exporting the slide deck\<close>

text \<open>
  The head of the HTML document is one template literal with four interpolations; the five
  constants below are its text between them.
\<close>

definition htmlHead :: string where
  "htmlHead =
     ''<!DOCTYPE html>\<newline>'' @
     (''<html lang='' @ [CHR 0x22] @ ''en'' @ [CHR 0x22] @ ''>\<newline>'') @
     ''<head>\<newline>'' @
     (''  <meta charset='' @ [CHR 0x22] @ ''UTF-8'' @ [CHR 0x22] @ ''>\<newline>'') @
     (''  <meta name='' @ [CHR 0x22] @ ''viewport'' @ [CHR 0x22] @ '' content='' @ [CHR 0x22] @ ''width=device-width, initial-scale=1.0'' @ [CHR 0x22] @ ''>\<newline>'') @
     ''  <title>''"

definition htmlAfterTitle :: string where
  "htmlAfterTitle =
     ''</title>\<newline>'' @
     ''  <style>\<newline>'' @
     ''    :root {\<newline>'' @
     ''      --primary-color: ''"

definition htmlAfterPrimary :: string where
  "htmlAfterPrimary =
     '';\<newline>'' @
     ''      --secondary-color: ''"

definition htmlAfterSecondary :: string where
  "htmlAfterSecondary =
     '';\<newline>'' @
     ''      --font-family: ''"

definition htmlStyleAndBody :: string where
  "htmlStyleAndBody =
     '';\<newline>'' @
     ''    }\<newline>'' @
     ''    * { box-sizing: border-box; margin: 0; padding: 0; }\<newline>'' @
     ''    body { font-family: var(--font-family); line-height: 1.6; }\<newline>'' @
     ''    .slide {\<newline>'' @
     ''      min-height: 100vh;\<newline>'' @
     ''      padding: 4rem;\<newline>'' @
     ''      display: flex;\<newline>'' @
     ''      flex-direction: column;\<newline>'' @
     ''      justify-content: center;\<newline>'' @
     ''      border-bottom: 1px solid #e5e7eb;\<newline>'' @
     ''    }\<newline>'' @
     ''    .slide-title {\<newline>'' @
     ''      background: linear-gradient(135deg, var(--primary-color), var(--secondary-color));\<newline>'' @
     ''      color: white;\<newline>'' @
     ''      text-align: center;\<newline>'' @
     ''    }\<newline>'' @
     ''    .slide-section-header {\<newline>'' @
     ''      background: var(--primary-color);\<newline>'' @
     ''      color: white;\<newline>'' @
     ''      text-align: center;\<newline>'' @
     ''    }\<newline>'' @
     ''    h1 { font-size: 3rem; margin-bottom: 1rem; }\<newline>'' @
     ''    h2 { font-size: 2.5rem; margin-bottom: 1rem; color: var(--primary-color); }\<newline>'' @
     ''    .subtitle { font-size: 1.5rem; opacity: 0.9; }\<newline>'' @
     ''    ul { list-style: none; padding-left: 0; }\<newline>'' @
     ''    li {\<newline>'' @
     ''      padding: 0.75rem 0;\<newline>'' @
     ''      padding-left: 2rem;\<newline>'' @
     ''      position: relative;\<newline>'' @
     ''      font-size: 1.25rem;\<newline>'' @
     ''    }\<newline>'' @
     ''    li::before {\<newline>'' @
     (''      content: '' @ [CHR 0x22, CHR 0xE2, CHR 0x80, CHR 0xA2, CHR 0x22] @ '';\<newline>'') @
     ''      color: var(--primary-color);\<newline>'' @
     ''      position: absolute;\<newline>'' @
     ''      left: 0;\<newline>'' @
     ''      font-size: 1.5rem;\<newline>'' @
     ''    }\<newline>'' @
     ''    pre {\<newline>'' @
     ''      background: #1f2937;\<newline>'' @
     ''      color: #f9fafb;\<newline>'' @
     ''      padding: 1.5rem;\<newline>'' @
     ''      border-radius: 0.5rem;\<newline>'' @
     ''      overflow-x: auto;\<newline>'' @
     ''      font-size: 1rem;\<newline>'' @
     ''    }\<newline>'' @
     ''    blockquote {\<newline>'' @
     ''      font-size: 1.75rem;\<newline>'' @
     ''      font-style: italic;\<newline>'' @
     ''      border-left: 4px solid var(--primary-color);\<newline>'' @
     ''      padding-left: 1.5rem;\<newline>'' @
     ''      margin: 2rem 0;\<newline>'' @
     ''    }\<newline>'' @
     ''    .attribution {\<newline>'' @
     ''      font-size: 1rem;\<newline>'' @
     ''      opacity: 0.7;\<newline>'' @
     ''      margin-top: 1rem;\<newline>'' @
     ''    }\<newline>'' @
     ''    .speaker-notes {\<newline>'' @
     ''      margin-top: 2rem;\<newline>'' @
     ''      padding: 1rem;\<newline>'' @
     ''      background: #f3f4f6;\<newline>'' @
     ''      border-radius: 0.5rem;\<newline>'' @
     ''      font-size: 0.875rem;\<newline>'' @
     ''      color: #6b7280;\<newline>'' @
     ''    }\<newline>'' @
     ''    .slide-number {\<newline>'' @
     ''      position: absolute;\<newline>'' @
     ''      bottom: 1rem;\<newline>'' @
     ''      right: 1rem;\<newline>'' @
     ''      font-size: 0.875rem;\<newline>'' @
     ''      color: #9ca3af;\<newline>'' @
     ''    }\<newline>'' @
     ''    @media print {\<newline>'' @
     ''      .slide { page-break-after: always; }\<newline>'' @
     ''      .speaker-notes { display: none; }\<newline>'' @
     ''    }\<newline>'' @
     ''  </style>\<newline>'' @
     ''</head>\<newline>'' @
     ''<body>\<newline>''"

definition layoutName :: "SlideLayout \<Rightarrow> string" where
  "layoutName l = (case l of LTitle \<Rightarrow> ''title'' | LSectionHeader \<Rightarrow> ''section_header''
     | LContent \<Rightarrow> ''content'' | LTwoColumn \<Rightarrow> ''two_column'' | LImageFull \<Rightarrow> ''image_full''
     | LCode \<Rightarrow> ''code'' | LQuote \<Rightarrow> ''quote'' | LBulletPoints \<Rightarrow> ''bullet_points''
     | LComparison \<Rightarrow> ''comparison'' | LTimeline \<Rightarrow> ''timeline'' | LQa \<Rightarrow> ''qa'')"

definition themeTypeName :: "ThemeType \<Rightarrow> string" where
  "themeTypeName t = (case t of Tech \<Rightarrow> ''tech'' | BusinessTheme \<Rightarrow> ''business''
     | AcademicTheme \<Rightarrow> ''academic'' | Minimal \<Rightarrow> ''minimal'' | Creative \<Rightarrow> ''creative'')"

text \<open>\<^verbatim>\<open>text.replace(/c/g, r)\<close> for a single character \<open>c\<close>.\<close>

definition replaceChar :: "char \<Rightarrow> string \<Rightarrow> string \<Rightarrow> string" where
  "replaceChar c r text = concat (map (\<lambda>x. if x = c then r else [x]) text)"

definition escapeHtml :: "string \<Rightarrow> string" where
  "escapeHtml text =
     replaceChar (CHR 0x27) ''&#039;''
       (replaceChar (CHR 0x22) ''&quot;''
         (replaceChar CHR ''>'' ''&gt;''
           (replaceChar CHR ''<'' ''&lt;''
             (replaceChar CHR ''&'' ''&amp;'' text))))"

definition slideFilename :: "SlideDeck \<Rightarrow> string \<Rightarrow> string" where
  "slideFilename deck ext = hyphenate False (toLowerCase (sd_title deck)) @ ext"

text \<open>
  The markdown export prints the duration of a slide, a number that need not be an integer;
  \<open>numberToString\<close> is JavaScript's conversion of a number to a string.
\<close>

definition markdownSlide :: "(rat \<Rightarrow> string) \<Rightarrow> ExportOptions \<Rightarrow> nat \<times> Slide \<Rightarrow> string" where
  "markdownSlide numberToString options = (\<lambda>(index, slide).
     ''## Slide '' @ show_nat (index + 1)
     @ (if truthy (sl_title slide) then '': '' @ the (sl_title slide) else [])
     @ ''\<newline>\<newline>''
     @ ''*Layout: '' @ layoutName (layout slide) @ ''*\<newline>\<newline>''
     @ (if truthy (sl_subtitle slide) then ''*'' @ the (sl_subtitle slide) @ ''*\<newline>\<newline>'' else [])
     @ (if truthy (sl_content slide) then the (sl_content slide) @ ''\<newline>\<newline>'' else [])
     @ (case bulletPoints slide of
          None \<Rightarrow> []
        | Some points \<Rightarrow>
            if length points > 0
            then concat (map (\<lambda>point. ''- '' @ point @ ''\<newline>'') points) @ ''\<newline>''
            else [])
     @ (case sl_code slide of
          None \<Rightarrow> []
        | Some cd \<Rightarrow>
            [CHR 0x60, CHR 0x60, CHR 0x60] @ language cd @ ''\<newline>'' @ ce_code cd @ ''\<newline>''
            @ [CHR 0x60, CHR 0x60, CHR 0x60] @ ''\<newline>\<newline>''
            @ (if explanation cd \<noteq> [] then ''*'' @ explanation cd @ ''*\<newline>\<newline>'' else []))
     @ (case quote slide of
          None \<Rightarrow> []
        | Some q \<Rightarrow>
            ''> '' @ q_text q @ ''\<newline>''
            @ (if truthy (attribution q)
               then ''> '' @ [CHR 0xE2, CHR 0x80, CHR 0x94] @ '' '' @ the (attribution q) @ ''\<newline>''
               else [])
            @ ''\<newline>'')
     @ (if truthy (imagePrompt slide)
        then ''**[Image suggestion: '' @ the (imagePrompt slide) @ '']**\<newline>\<newline>'' else [])
     @ (if includeNotes options \<and> sl_speakerNotes slide \<noteq> []
        then ''---\<newline>**Speaker Notes:** '' @ sl_speakerNotes slide @ ''\<newline>\<newline>'' else [])
     @ (if includeTimings options
        then ''*Duration: '' @ numberToString (sl_duration slide) @ '' seconds*\<newline>\<newline>'' else [])
     @ ''---\<newline>\<newline>'')"

definition exportToMarkdown :: "(rat \<Rightarrow> string) \<Rightarrow> SlideDeck \<Rightarrow> ExportOptions \<Rightarrow> ExportResult" where
  "exportToMarkdown numberToString deck options =
     \<lparr>er_format = Markdown,
      er_content =
        ''# '' @ sd_title deck @ ''\<newline>\<newline>''
        @ (if truthy (sd_author deck) then ''**Presenter:** '' @ the (sd_author deck) @ ''\<newline>'' else [])
        @ (if truthy (sd_date deck) then ''**Date:** '' @ the (sd_date deck) @ ''\<newline>'' else [])
        @ ''**Total Slides:** '' @ show_nat (totalSlides (metadata deck)) @ ''\<newline>\<newline>''
        @ ''---\<newline>\<newline>''
        @ concat (map (markdownSlide numberToString options) (enumerate 0 (slides deck))),
      filename = slideFilename deck ''-slides.md'',
      mimeType = ''text/markdown''\<rparr>"

text \<open>
  The value that \<^verbatim>\<open>JSON.stringify\<close> serialises: a property whose value is
  \<^verbatim>\<open>undefined\<close> is left out, the others appear in the order of the interface.
\<close>

datatype json =
  JNull | JBool bool | JNum rat | JStr string | JArr "json list" | JObj "(string \<times> json) list"

definition optField :: "string \<Rightarrow> ('a \<Rightarrow> json) \<Rightarrow> 'a option \<Rightarrow> (string \<times> json) list" where
  "optField k f v = (case v of None \<Rightarrow> [] | Some x \<Rightarrow> [(k, f x)])"

definition strings :: "string list \<Rightarrow> json" where
  "strings xs = JArr (map JStr xs)"

definition themeJson :: "SlideTheme \<Rightarrow> json" where
  "themeJson t = JObj
     ([(''name'', JStr (th_name t)), (''type'', JStr (themeTypeName (th_type t)))]
      @ optField ''primaryColor'' JStr (primaryColor t)
      @ optField ''secondaryColor'' JStr (secondaryColor t)
      @ optField ''fontFamily'' JStr (fontFamily t))"

definition codeJson :: "CodeExample \<Rightarrow> json" where
  "codeJson cd = JObj
     ([(''language'', JStr (language cd)), (''code'', JStr (ce_code cd)),
       (''explanation'', JStr (explanation cd))]
      @ optField ''highlightLines'' (\<lambda>ls. JArr (map (\<lambda>l. JNum (of_int l)) ls)) (highlightLines cd))"

definition quoteJson :: "Quote \<Rightarrow> json" where
  "quoteJson q = JObj
     ([(''text'', JStr (q_text q))] @ optField ''attribution'' JStr (attribution q))"

text \<open>
  \<^verbatim>\<open>{ ...slide, speakerNotes: includeNotes ? slide.speakerNotes : undefined,
  duration: includeTimings ? slide.duration : undefined }\<close>
\<close>

definition slideJson :: "ExportOptions \<Rightarrow> Slide \<Rightarrow> json" where
  "slideJson options slide = JObj
     ([(''id'', JStr (sl_id slide)), (''order'', JNum (of_nat (sl_order slide))),
       (''layout'', JStr (layoutName (layout slide)))]
      @ optField ''title'' JStr (sl_title slide)
      @ optField ''subtitle'' JStr (sl_subtitle slide)
      @ optField ''content'' JStr (sl_content slide)
      @ optField ''bulletPoints'' strings (bulletPoints slide)
      @ optField ''imagePrompt'' JStr (imagePrompt slide)
      @ optField ''code'' codeJson (sl_code slide)
      @ optField ''quote'' quoteJson (quote slide)
      @ optField ''speakerNotes'' JStr
          (if includeNotes options then Some (sl_speakerNotes slide) else None)
      @ optField ''duration'' JNum
          (if includeTimings options then Some (sl_duration slide) else None))"

definition metadataJson :: "SlideMetadata \<Rightarrow> json" where
  "metadataJson m = JObj
     [(''totalSlides'', JNum (of_nat (totalSlides m))),
      (''estimatedDuration'', JNum (estimatedDuration m)),
      (''generatedAt'', JStr (generatedAt m)),
      (''version'', JStr (version m))]"

definition exportData :: "SlideDeck \<Rightarrow> ExportOptions \<Rightarrow> json" where
  "exportData deck options = JObj
     ([(''title'', JStr (sd_title deck))]
      @ optField ''author'' JStr (sd_author deck)
      @ optField ''date'' JStr (sd_date deck)
      @ [(''theme'', themeJson (sd_theme deck)),
         (''slides'', JArr (map (slideJson options) (slides deck))),
         (''metadata'', metadataJson (metadata deck))])"

text \<open>
  \<open>stringify v\<close> is \<^verbatim>\<open>JSON.stringify(v, null, 2)\<close>, the serialiser of the JavaScript
  platform; it is a parameter of the export.
\<close>

definition exportToJson :: "(json \<Rightarrow> string) \<Rightarrow> SlideDeck \<Rightarrow> ExportOptions \<Rightarrow> ExportResult" where
  "exportToJson stringify deck options =
     \<lparr>er_format = Json,
      er_content = stringify (exportData deck options),
      filename = slideFilename deck ''-slides.json'',
      mimeType = ''application/json''\<rparr>"

text \<open>\<open>getField k v\<close> reads the property \<open>k\<close> of a parsed object.\<close>

definition getField :: "string \<Rightarrow> json \<Rightarrow> json option" where
  "getField k v = (case v of JObj kvs \<Rightarrow> map_of kvs k | _ \<Rightarrow> None)"

definition htmlSlide :: "ExportOptions \<Rightarrow> nat \<Rightarrow> nat \<times> Slide \<Rightarrow> string" where
  "htmlSlide options count = (\<lambda>(index, slide).
     (let layoutClass =
            (if layout slide = LTitle then ''slide-title''
             else if layout slide = LSectionHeader then ''slide-section-header'' else []);
          h = (if layout slide = LTitle then ''1'' else ''2'')
      in
        ''  <div class='' @ [CHR 0x22] @ ''slide '' @ layoutClass @ [CHR 0x22] @ ''>\<newline>''
        @ (if truthy (sl_title slide)
           then ''    <h'' @ h @ ''>'' @ escapeHtml (the (sl_title slide)) @ ''</h'' @ h @ ''>\<newline>''
           else [])
        @ (if truthy (sl_subtitle slide)
           then ''    <p class='' @ [CHR 0x22] @ ''subtitle'' @ [CHR 0x22] @ ''>''
                @ escapeHtml (the (sl_subtitle slide)) @ ''</p>\<newline>''
           else [])
        @ (if truthy (sl_content slide)
           then ''    <p>'' @ escapeHtml (the (sl_content slide)) @ ''</p>\<newline>''
           else [])
        @ (case bulletPoints slide of
             None \<Rightarrow> []
           | Some points \<Rightarrow>
               if length points > 0
               then ''    <ul>\<newline>''
                    @ concat (map (\<lambda>point. ''      <li>'' @ escapeHtml point @ ''</li>\<newline>'') points)
                    @ ''    </ul>\<newline>''
               else [])
        @ (case sl_code slide of
             None \<Rightarrow> []
           | Some cd \<Rightarrow>
               ''    <pre><code class='' @ [CHR 0x22] @ ''language-'' @ language cd @ [CHR 0x22] @ ''>''
               @ escapeHtml (ce_code cd) @ ''</code></pre>\<newline>'')
        @ (case quote slide of
             None \<Rightarrow> []
           | Some q \<Rightarrow>
               ''    <blockquote>'' @ escapeHtml (q_text q) @ ''</blockquote>\<newline>''
               @ (if truthy (attribution q)
                  then ''    <p class='' @ [CHR 0x22] @ ''attribution'' @ [CHR 0x22] @ ''>''
                       @ [CHR 0xE2, CHR 0x80, CHR 0x94] @ '' ''
                       @ escapeHtml (the (attribution q)) @ ''</p>\<newline>''
                  else []))
        @ (if includeNotes options \<and> sl_speakerNotes slide \<noteq> []
           then ''    <div class='' @ [CHR 0x22] @ ''speaker-notes'' @ [CHR 0x22] @ ''>\<newline>''
                @ ''      <strong>Notes:</strong> '' @ escapeHtml (sl_speakerNotes slide) @ ''\<newline>''
                @ ''    </div>\<newline>''
           else [])
        @ ''    <span class='' @ [CHR 0x22] @ ''slide-number'' @ [CHR 0x22] @ ''>''
        @ show_nat (index + 1) @ '' / '' @ show_nat count @ ''</span>\<newline>''
        @ ''  </div>\<newline>\<newline>''))"

definition exportToHtml :: "SlideDeck \<Rightarrow> ExportOptions \<Rightarrow> ExportResult" where
  "exportToHtml deck options =
     (let theme = (case eo_theme options of None \<Rightarrow> sd_theme deck | Some t \<Rightarrow> t)
      in \<lparr>er_format = Html,
          er_content =
            htmlHead @ sd_title deck
            @ htmlAfterTitle @ orElse (primaryColor theme) ''#2563eb''
            @ htmlAfterPrimary @ orElse (secondaryColor theme) ''#1e40af''
            @ htmlAfterSecondary @ orElse (fontFamily theme) ''system-ui, sans-serif''
            @ htmlStyleAndBody
            @ concat (map (htmlSlide options (length (slides deck))) (enumerate 0 (slides deck)))
            @ ''</body>\<newline></html>'',
          filename = slideFilename deck ''-slides.html'',
          mimeType = ''text/html''\<rparr>)"

definition exportSlideDeck ::
  "(json \<Rightarrow> string) \<Rightarrow> (rat \<Rightarrow> string) \<Rightarrow> SlideDeck \<Rightarrow> ExportOptions \<Rightarrow> ExportResult" where
  "exportSlideDeck stringify numberToString deck options =
     (case eo_format options of
        Markdown \<Rightarrow> exportToMarkdown numberToString deck options
      | Json \<Rightarrow> exportToJson stringify deck options
      | Html \<Rightarrow> exportToHtml deck options
      | Pdf \<Rightarrow> exportToMarkdown numberToString deck options)"

subsection \<open>Slide deck validation\<close>

record SlideValidation =
  sv_isValid :: bool
  sv_warnings :: "string list"
  sv_suggestions :: "string list"

definition validateSlideDeck :: "SlideDeck \<Rightarrow> TalkConfig \<Rightarrow> SlideValidation" where
  "validateSlideDeck deck cfg =
     (let expectedSlides = cfg_duration cfg;
          n = length (slides deck);
          tooMany = rat_of_nat n > js_mul (of_int expectedSlides) (3 / 2);
          tooFew = rat_of_nat n < js_mul (of_int expectedSlides) (1 / 2);
          untitledSlides = filter (\<lambda>s. \<not> truthy (sl_title s) \<and> layout s \<noteq> LImageFull) (slides deck);
          slidesWithoutNotes = filter (\<lambda>s. sl_speakerNotes s = []) (slides deck);
          warnings =
            (if tooMany
             then [''Too many slides ('' @ show_nat n @ '') for '' @ show_int (cfg_duration cfg)
                     @ ''-min talk. Consider consolidating.'']
             else [])
            @ concat (map (\<lambda>(index, slide).
                case bulletPoints slide of
                  None \<Rightarrow> []
                | Some points \<Rightarrow>
                    if length points > 6
                    then [''Slide '' @ show_nat (index + 1) @ '' has '' @ show_nat (length points)
                            @ '' bullet points - consider splitting'']
                    else [])
              (enumerate 0 (slides deck)));
          suggestions =
            (if \<not> tooMany \<and> tooFew
             then [''Few slides ('' @ show_nat n @ '') for '' @ show_int (cfg_duration cfg)
                     @ ''-min talk. Ensure each has enough content.'']
             else [])
            @ (if length untitledSlides > 0
               then [show_nat (length untitledSlides) @ '' slides lack titles''] else [])
            @ (if rat_of_nat (length slidesWithoutNotes) > js_mul (of_nat n) (fl (3 / 10))
               then [''Many slides lack speaker notes - add notes for better delivery'']
               else [])
      in \<lparr>sv_isValid = (length warnings = 0), sv_warnings = warnings,
          sv_suggestions = suggestions\<rparr>)"

subsection \<open>The workflow coordinator\<close>

datatype WorkflowStep = Ideation | OutlineStep | ContentStep | ExportStep | Rehearsal

record WorkflowState =
  currentStep :: WorkflowStep
  completedSteps :: "WorkflowStep list"
  config :: TalkConfig
  research :: "ResearchResult option"
  outline :: "TalkOutline option"
  script :: "Script option"
  ws_slides :: "SlideDeck option"
  qaPrep :: "QAPreparation option"
  rehearsals :: "RehearsalSession list"

text \<open>
  The class \<^verbatim>\<open>TalkPrepSkill\<close> has one field, \<^verbatim>\<open>state: WorkflowState | null\<close>. A method
  takes the coordinator as its last argument. A method that can throw returns \<open>Inl\<close> of
  the error, and then the coordinator is as it was before the call: every \<^verbatim>\<open>throw\<close> of
  the class precedes the first assignment of its method. A method that assigns to the
  state returns the coordinator after the call beside its result. An accessor that has no
  \<^verbatim>\<open>throw\<close> is given the same type and always answers with \<open>Inr\<close>.
\<close>

record TalkPrepSkill =
  state :: "WorkflowState option"

datatype error = Error string

definition createTalkPrepSkill :: TalkPrepSkill where
  "createTalkPrepSkill = \<lparr>state = None\<rparr>"

record InitResult =
  success :: bool
  init_error :: "string option"
  init_state :: "WorkflowState option"

text \<open>
  \<open>safeParse\<close> is \<^verbatim>\<open>TalkConfigSchema.safeParse\<close> of the validation library: it answers with
  the parsed configuration or with the messages of the issues it found.
\<close>

definition initialize ::
  "('i \<Rightarrow> string list + TalkConfig) \<Rightarrow> 'i \<Rightarrow> TalkPrepSkill \<Rightarrow> InitResult \<times> TalkPrepSkill" where
  "initialize safeParse configInput this =
     (case safeParse configInput of
        Inl messages \<Rightarrow>
          (\<lparr>success = False,
            init_error = Some (''Invalid configuration: '' @ join '', '' messages),
            init_state = None\<rparr>, this)
      | Inr cfg \<Rightarrow>
          (let s = \<lparr>currentStep = Ideation, completedSteps = [], config = cfg,
                    research = None, outline = None, script = None, ws_slides = None,
                    qaPrep = None, rehearsals = []\<rparr>
           in (\<lparr>success = True, init_error = None, init_state = Some s\<rparr>,
               this\<lparr>state := Some s\<rparr>)))"

definition completeStep :: "WorkflowStep \<Rightarrow> WorkflowState \<Rightarrow> WorkflowState" where
  "completeStep step s =
     (if step \<notin> set (completedSteps s)
      then s\<lparr>completedSteps := completedSteps s @ [step]\<rparr> else s)"

definition getDiscoveryQuestions :: "TalkPrepSkill \<Rightarrow> error + string list" where
  "getDiscoveryQuestions this =
     (case state this of
        None \<Rightarrow> Inr []
      | Some s \<Rightarrow> Inr (generateDiscoveryQuestions (config s)))"

definition getTopicSuggestions :: "TalkPrepSkill \<Rightarrow> error + string list" where
  "getTopicSuggestions this =
     (case state this of
        None \<Rightarrow> Inr []
      | Some s \<Rightarrow> Inr (suggestTopicRefinements (topic (config s)) (talkType (config s))
                        (cfg_duration (config s))))"

definition setResearchResults :: "ResearchResult \<Rightarrow> TalkPrepSkill \<Rightarrow> error + unit \<times> TalkPrepSkill" where
  "setResearchResults r this =
     (case state this of
        None \<Rightarrow> Inl (Error ''Session not initialized'')
      | Some s \<Rightarrow>
          Inr ((), this\<lparr>state :=
            Some ((completeStep Ideation (s\<lparr>research := Some r\<rparr>))\<lparr>currentStep := OutlineStep\<rparr>)\<rparr>))"

definition generateOutline ::
  "string list option \<Rightarrow> TalkPrepSkill \<Rightarrow> error + TalkOutline \<times> TalkPrepSkill" where
  "generateOutline keyConceptsArg this =
     (case state this of
        None \<Rightarrow> Inl (Error ''Session not initialized'')
      | Some s \<Rightarrow>
          (let template = getTemplate (talkType (config s));
               outl = generateOutlineFromTemplate template (topic (config s)) (cfg_duration (config s));
               outl' = (case research s of
                          Some r \<Rightarrow> outl\<lparr>learningObjectives := take 3 (keyConcepts r)\<rparr>
                        | None \<Rightarrow>
                            (case keyConceptsArg of
                               Some ks \<Rightarrow> outl\<lparr>learningObjectives := ks\<rparr>
                             | None \<Rightarrow> outl))
           in Inr (outl', this\<lparr>state := Some (s\<lparr>outline := Some outl'\<rparr>)\<rparr>)))"

record SetOutlineResult =
  valid :: bool
  warnings :: "string list"

definition setOutline :: "TalkOutline \<Rightarrow> TalkPrepSkill \<Rightarrow> error + SetOutlineResult \<times> TalkPrepSkill" where
  "setOutline outl this =
     (case state this of
        None \<Rightarrow> Inl (Error ''Session not initialized'')
      | Some s \<Rightarrow>
          (let s1 = s\<lparr>outline := Some outl\<rparr>;
               validation = validateOutlineTiming outl;
               suggestions = suggestOutlineImprovements outl;
               s2 = (if tv_isValid validation
                     then (completeStep OutlineStep s1)\<lparr>currentStep := ContentStep\<rparr>
                     else s1)
           in Inr (\<lparr>valid = tv_isValid validation,
                    warnings = tv_warnings validation @ suggestions\<rparr>,
                   this\<lparr>state := Some s2\<rparr>)))"

text \<open>\<^verbatim>\<open>!this.state?.outline\<close> holds when there is no session or the session has no outline.\<close>

definition stateOutline :: "TalkPrepSkill \<Rightarrow> (WorkflowState \<times> TalkOutline) option" where
  "stateOutline this =
     (case state this of
        None \<Rightarrow> None
      | Some s \<Rightarrow> (case outline s of None \<Rightarrow> None | Some outl \<Rightarrow> Some (s, outl)))"

definition generateScript :: "TalkPrepSkill \<Rightarrow> error + Script \<times> TalkPrepSkill" where
  "generateScript this =
     (case stateOutline this of
        None \<Rightarrow> Inl (Error ''Outline required before generating script'')
      | Some (s, outl) \<Rightarrow>
          (let scr = createScriptTemplate outl
           in Inr (scr, this\<lparr>state := Some (s\<lparr>script := Some scr\<rparr>)\<rparr>)))"

definition setScript :: "Script \<Rightarrow> TalkPrepSkill \<Rightarrow> error + ContentValidation \<times> TalkPrepSkill" where
  "setScript scr this =
     (case state this of
        None \<Rightarrow> Inl (Error ''Session not initialized'')
      | Some s \<Rightarrow>
          (let s1 = s\<lparr>script := Some scr\<rparr>;
               validation = validateContent scr (config s1);
               s2 = (if cv_isValid validation
                     then (completeStep ContentStep s1)\<lparr>currentStep := ExportStep\<rparr>
                     else s1)
           in Inr (validation, this\<lparr>state := Some s2\<rparr>)))"

definition generateSlides ::
  "(nat \<Rightarrow> nat) \<Rightarrow> string \<Rightarrow> string \<Rightarrow> TalkPrepSkill \<Rightarrow> error + SlideDeck \<times> TalkPrepSkill" where
  "generateSlides clock iso1 iso2 this =
     (case stateOutline this of
        None \<Rightarrow> Inl (Error ''Outline required before generating slides'')
      | Some (s, outl) \<Rightarrow>
          (let deck = createSlideDeckTemplate clock iso1 iso2 (config s) outl
           in Inr (deck, this\<lparr>state := Some (s\<lparr>ws_slides := Some deck\<rparr>)\<rparr>)))"

definition setSlides :: "SlideDeck \<Rightarrow> TalkPrepSkill \<Rightarrow> error + SlideValidation \<times> TalkPrepSkill" where
  "setSlides deck this =
     (case state this of
        None \<Rightarrow> Inl (Error ''Session not initialized'')
      | Some s \<Rightarrow>
          (let s1 = s\<lparr>ws_slides := Some deck\<rparr>;
               validation = validateSlideDeck deck (config s1);
               s2 = (completeStep ExportStep s1)\<lparr>currentStep := Rehearsal\<rparr>
           in Inr (validation, this\<lparr>state := Some s2\<rparr>)))"

definition exportSlides ::
  "(json \<Rightarrow> string) \<Rightarrow> (rat \<Rightarrow> string) \<Rightarrow> ExportOptions \<Rightarrow> TalkPrepSkill \<Rightarrow> error + ExportResult" where
  "exportSlides stringify numberToString options this =
     (case state this of
        None \<Rightarrow> Inl (Error ''No slides available'')
      | Some s \<Rightarrow>
          (case ws_slides s of
             None \<Rightarrow> Inl (Error ''No slides available'')
           | Some deck \<Rightarrow> Inr (exportSlideDeck stringify numberToString deck options)))"

definition generateQAPrep :: "TalkPrepSkill \<Rightarrow> error + QAPreparation \<times> TalkPrepSkill" where
  "generateQAPrep this =
     (case stateOutline this of
        None \<Rightarrow> Inl (Error ''Outline required'')
      | Some (s, outl) \<Rightarrow>
          (let prep = createQAPreparation (config s) outl
           in Inr (prep, this\<lparr>state := Some (s\<lparr>qaPrep := Some prep\<rparr>)\<rparr>)))"

definition startRehearsal :: "nat \<Rightarrow> nat \<Rightarrow> TalkPrepSkill \<Rightarrow> error + string \<times> TalkPrepSkill" where
  "startRehearsal now start this =
     (case stateOutline this of
        None \<Rightarrow> Inl (Error ''Outline required'')
      | Some (s, outl) \<Rightarrow>
          (let session = createRehearsalSession now start outl;
               s1 = s\<lparr>rehearsals := rehearsals s @ [session]\<rparr>;
               s2 = completeStep Rehearsal s1
           in Inr (rh_id session, this\<lparr>state := Some s2\<rparr>)))"

definition getPracticeSuggestions :: "TalkPrepSkill \<Rightarrow> error + string list" where
  "getPracticeSuggestions this =
     (case state this of
        None \<Rightarrow> Inl (Error ''Session not initialized'')
      | Some s \<Rightarrow> Inr (generatePracticeSuggestions (config s)))"

definition getState :: "TalkPrepSkill \<Rightarrow> WorkflowState option" where
  "getState this = state this"

definition getCurrentStep :: "TalkPrepSkill \<Rightarrow> WorkflowStep option" where
  "getCurrentStep this = (case state this of None \<Rightarrow> None | Some s \<Rightarrow> Some (currentStep s))"

definition isStepCompleted :: "WorkflowStep \<Rightarrow> TalkPrepSkill \<Rightarrow> bool" where
  "isStepCompleted step this =
     (case state this of None \<Rightarrow> False | Some s \<Rightarrow> step \<in> set (completedSteps s))"

definition getTemplateOfSession :: "TalkPrepSkill \<Rightarrow> error + TalkTemplate" where
  "getTemplateOfSession this =
     (case state this of
        None \<Rightarrow> Inl (Error ''Session not initialized'')
      | Some s \<Rightarrow> Inr (getTemplate (talkType (config s))))"

subsection \<open>Sequences of calls\<close>

text \<open>
  A client drives the coordinator by a sequence of method calls. \<open>Call\<close> names the calls
  that assign to the session, with their arguments; \<open>perform\<close> dispatches one call and
  forgets its result; \<open>run\<close> performs a sequence, and a call that throws leaves the
  coordinator as it was.
\<close>

datatype Call =
  SetResearchResults ResearchResult
  | GenerateOutline "string list option"
  | SetOutline TalkOutline
  | GenerateScript
  | SetScript Script
  | GenerateSlides "nat \<Rightarrow> nat" string string
  | SetSlides SlideDeck
  | GenerateQAPrep
  | StartRehearsal nat nat

definition forget :: "error + 'a \<times> TalkPrepSkill \<Rightarrow> error + TalkPrepSkill" where
  "forget r = (case r of Inl e \<Rightarrow> Inl e | Inr (v, this) \<Rightarrow> Inr this)"

fun perform :: "Call \<Rightarrow> TalkPrepSkill \<Rightarrow> error + TalkPrepSkill" where
  "perform (SetResearchResults r) this = forget (setResearchResults r this)"
| "perform (GenerateOutline ks) this = forget (generateOutline ks this)"
| "perform (SetOutline outl) this = forget (setOutline outl this)"
| "perform GenerateScript this = forget (generateScript this)"
| "perform (SetScript scr) this = forget (setScript scr this)"
| "perform (GenerateSlides clock iso1 iso2) this = forget (generateSlides clock iso1 iso2 this)"
| "perform (SetSlides deck) this = forget (setSlides deck this)"
| "perform GenerateQAPrep this = forget (generateQAPrep this)"
| "perform (StartRehearsal now start) this = forget (startRehearsal now start this)"

fun run :: "Call list \<Rightarrow> TalkPrepSkill \<Rightarrow> TalkPrepSkill" where
  "run [] this = this"
| "run (c # cs) this = run cs (case perform c this of Inl e \<Rightarrow> this | Inr this' \<Rightarrow> this')"

text \<open>The step that a call assigns to \<^verbatim>\<open>currentStep\<close>, for the calls that assign one.\<close>

fun targetStep :: "Call \<Rightarrow> WorkflowStep option" where
  "targetStep (SetResearchResults r) = Some OutlineStep"
| "targetStep (SetOutline outl) = Some ContentStep"
| "targetStep (SetScript scr) = Some ExportStep"
| "targetStep (SetSlides deck) = Some Rehearsal"
| "targetStep c = None"

text \<open>The position of a step in the order ideation, outline, content, export, rehearsal.\<close>

fun stepIndex :: "WorkflowStep \<Rightarrow> nat" where
  "stepIndex Ideation = 0"
| "stepIndex OutlineStep = 1"
| "stepIndex ContentStep = 2"
| "stepIndex ExportStep = 3"
| "stepIndex Rehearsal = 4"

subsection \<open>Example values\<close>

definition exampleSession :: RehearsalSession where
  "exampleSession =
     \<lparr>rh_id = ''rehearsal-1700000000000'',
      startTime = 1700000000000,
      endTime = None,
      rh_sections =
        [\<lparr>rt_sectionId = ''section-0'', targetDuration = 60, actualDuration = None, status = NotStarted\<rparr>,
         \<lparr>rt_sectionId = ''section-1'', targetDuration = 180, actualDuration = None, status = NotStarted\<rparr>],
      feedback =
        \<lparr>overallTiming = \<lparr>target = 300, actual = 0, variance = 0\<rparr>,
         sectionFeedback = [], rf_suggestions = [], strengthAreas = [], improvementAreas = []\<rparr>\<rparr>"

definition exampleConfig :: TalkConfig where
  "exampleConfig =
     \<lparr>topic = ''Building APIs with GraphQL'', audience = Technical, cfg_duration = 30,
      expertiseLevel = Intermediate, talkType = TechnicalDeepDive, tone = Conversational,
      speakerName = None, conferenceContext = None, additionalNotes = None\<rparr>"

definition exampleOutline :: TalkOutline where
  "exampleOutline =
     \<lparr>to_title = ''Building APIs with GraphQL'', to_subtitle = None, totalDuration = 30,
      to_sections =
        [\<lparr>os_id = ''section-0'', os_title = ''Problem Context'', os_duration = 5, os_order = 0,
          os_type = Intro, os_keyPoints = [''Why REST falls short''], subsections = None,
          os_notes = None\<rparr>,
         \<lparr>os_id = ''section-1'', os_title = ''Schema design'', os_duration = 10, os_order = 1,
          os_type = MainSection, os_keyPoints = [''GraphQL basics'', ''Schema first''],
          subsections = None, os_notes = None\<rparr>,
         \<lparr>os_id = ''section-2'', os_title = ''Demo'', os_duration = 10, os_order = 2,
          os_type = MainSection, os_keyPoints = [], subsections = None, os_notes = None\<rparr>,
         \<lparr>os_id = ''section-3'', os_title = ''Wrap-up'', os_duration = 5, os_order = 3,
          os_type = Conclusion, os_keyPoints = [''Try it''], subsections = None, os_notes = None\<rparr>],
      learningObjectives = [''GraphQL basics'', ''Schema design''],
      callToAction = None\<rparr>"

definition acceptTopic :: "TalkConfig \<Rightarrow> string list + TalkConfig" where
  "acceptTopic c =
     (if length (topic c) < 3 then Inl [''Topic must be at least 3 characters''] else Inr c)"

definition exampleSkill :: TalkPrepSkill where
  "exampleSkill = snd (initialize acceptTopic exampleConfig createTalkPrepSkill)"

definition exampleResearch :: ResearchResult where
  "exampleResearch =
     \<lparr>refinedTopic = ''GraphQL schema design'', topicSuggestions = [],
      keyConcepts = [''GraphQL basics'', ''Schema design''], sources = [],
      potentialBiases = [], audienceConsiderations = []\<rparr>"

definition scriptTitle :: string where
  "scriptTitle = ''<script>alert(1)</script>''"

definition exampleDeck :: SlideDeck where
  "exampleDeck =
     \<lparr>sd_title = scriptTitle, sd_author = None, sd_date = Some ''2026-01-02'',
      sd_theme = DEFAULT_THEMES Tech,
      slides =
        [\<lparr>sl_id = ''slide-0-17'', sl_order = 0, layout = LTitle, sl_title = Some scriptTitle,
          sl_subtitle = None, sl_content = None, bulletPoints = None, imagePrompt = None,
          sl_code = None, quote = None, sl_speakerNotes = ''Introduce yourself.'',
          sl_duration = 30\<rparr>,
         \<lparr>sl_id = ''slide-1-18'', sl_order = 1, layout = LTitle, sl_title = Some ''Thank You'',
          sl_subtitle = Some ''Questions and discussion welcome'', sl_content = None,
          bulletPoints = None, imagePrompt = None, sl_code = None, quote = None,
          sl_speakerNotes = ''Thank the audience.'', sl_duration = 15\<rparr>],
      metadata =
        \<lparr>totalSlides = 2, estimatedDuration = 45, generatedAt = ''2026-01-02T10:00:00.000Z'',
         version = ''1.0.0''\<rparr>\<rparr>"

definition htmlOptions :: ExportOptions where
  "htmlOptions = \<lparr>eo_format = Html, includeNotes = True, includeTimings = True, eo_theme = None\<rparr>"

text \<open>
  A serialiser and its parser, to have one pair with the property that parsing gives the
  serialised value back: the value is written as its number in an enumeration of \<open>json\<close>,
  in unary.
\<close>

instance json :: countable
  by countable_datatype

definition stringifyUnary :: "json \<Rightarrow> string" where
  "stringifyUnary v = replicate (to_nat v) (CHR ''1'')"

definition parseUnary :: "string \<Rightarrow> json option" where
  "parseUnary s = Some (from_nat (length s))"

definition wholeNumberToString :: "rat \<Rightarrow> string" where
  "wholeNumberToString r = show_int \<lfloor>r\<rfloor>"

definition jsonOptions :: ExportOptions where
  "jsonOptions = \<lparr>eo_format = Json, includeNotes = False, includeTimings = True, eo_theme = None\<rparr>"


text \<open>
  A template of a caller's own, as \<^verbatim>\<open>generateOutlineFromTemplate\<close> accepts any
  \<^verbatim>\<open>TalkTemplate\<close>: two sections of 35 and 65 percent.
\<close>

definition caseStudyTemplate :: TalkTemplate where
  "caseStudyTemplate =
    \<lparr>tt_name = ''Case Study'',
     description = ''One project, told from problem to result'',
     defaultDuration = 90,
     structure =
     [\<lparr>ts_title = ''The Problem'', ts_type = Intro, durationPercent = 35,
        keyPointPrompts = [''What was broken''],
        ts_notes = ''Set the scene.''\<rparr>,
      \<lparr>ts_title = ''The Result'', ts_type = MainSection, durationPercent = 65,
        keyPointPrompts = [''What changed''],
        ts_notes = ''Show the numbers.''\<rparr>],
     tips = [],
     exampleHooks = [],
     recommendedTheme = DEFAULT_THEMES Minimal\<rparr>"
section \<open>Properties\<close>

subsection \<open>The template table\<close>

text \<open>
  Claim C5. For each of the five talk types, the duration percentages of the sections of
  \<open>getTemplate talkType\<close> add up to exactly 100.
\<close>

theorem template_percentages_sum_to_100:
  "sum_list (map durationPercent (structure (getTemplate t))) = 100"
  by (cases t)
    (simp_all add: keynoteTemplate_def technicalDeepDiveTemplate_def workshopTemplate_def
      lightningTalkTemplate_def panelDiscussionTemplate_def)

subsection \<open>The arithmetic of doubles\<close>

lemma nbits_numeral [simp]:
  "nbits 0 = 0"
  "nbits (Suc 0) = Suc 0"
  "nbits (numeral (Num.Bit0 k)) = Suc (nbits (numeral k))"
  "nbits (numeral (Num.Bit1 k)) = Suc (nbits (numeral k))"
  by (simp_all add: nbits.simps [of 0] nbits.simps [of "Suc 0"]
      nbits.simps [of "numeral (Num.Bit0 k)"] nbits.simps [of "numeral (Num.Bit1 k)"]
      numeral_Bit0_div_2 numeral_Bit1_div_2)

lemma floor_rat_numeral_quotient [simp]:
  "\<lfloor>numeral a / numeral b :: rat\<rfloor> = numeral a div numeral b"
  by (metis floor_divide_of_int_eq of_int_numeral)

lemma ceiling_rat_numeral_quotient [simp]:
  "\<lceil>numeral a / numeral b :: rat\<rceil> = - (- numeral a div numeral b)"
  by (metis ceiling_def divide_minus_left floor_divide_of_int_eq of_int_neg_numeral of_int_numeral)

text \<open>
  The rounding function does what its name says: for a positive \<open>x\<close> whose binary
  logarithm has the integer part \<open>k\<close>, \<open>fl x\<close> is a multiple of \<open>2\<^sup>e\<close> for
  \<open>e = max (k - 52) (- 1074)\<close>, with a significand of at most 53 bits, and it differs
  from \<open>x\<close> by at most half of \<open>2\<^sup>e\<close>; and \<open>fl\<close> is odd.
\<close>

lemma nbits_bounds: "0 < n \<Longrightarrow> 2 ^ (nbits n - 1) \<le> n \<and> n < 2 ^ nbits n"
proof (induction n rule: nbits.induct)
  case (1 n)
  show ?case
  proof (cases "n div 2 = 0")
    case True
    with "1.prems" have "n = 1" by auto
    then show ?thesis by (simp add: nbits.simps [of 1] nbits.simps [of 0])
  next
    case False
    then have pos: "0 < n div 2" by simp
    from "1.IH" [OF _ pos] "1.prems"
    have ih: "2 ^ (nbits (n div 2) - 1) \<le> n div 2" "n div 2 < 2 ^ nbits (n div 2)"
      by auto
    have nb: "nbits n = Suc (nbits (n div 2))"
      using "1.prems" by (simp add: nbits.simps [of n])
    have pos': "0 < nbits (n div 2)"
      using pos by (simp add: nbits.simps [of "n div 2"])
    then obtain k where k: "nbits (n div 2) = Suc k"
      by (cases "nbits (n div 2)") auto
    from ih k have "2 * 2 ^ k \<le> n" "n < 2 * 2 ^ Suc k"
      by auto
    with nb k show ?thesis by simp
  qed
qed

lemma ilog2_bounds:
  assumes "0 < x"
  shows "pow2 (ilog2 x) \<le> x \<and> x < pow2 (ilog2 x + 1)"
proof (cases "1 \<le> x")
  case True
  define n where "n = nat \<lfloor>x\<rfloor>"
  from True have n: "0 < n" "of_nat n \<le> x" "x < of_nat n + 1"
    by (auto simp add: n_def) linarith+
  from nbits_bounds [OF n(1)] have b: "2 ^ (nbits n - 1) \<le> n" "n < 2 ^ nbits n"
    by auto
  from n(1) have nb: "0 < nbits n" by (simp add: nbits.simps [of n])
  have il: "ilog2 x = int (nbits n) - 1"
    using True by (simp add: ilog2_def n_def)
  have lo: "(2::rat) ^ (nbits n - 1) \<le> x"
  proof -
    have "(2::rat) ^ (nbits n - 1) = of_nat (2 ^ (nbits n - 1))" by simp
    also from b(1) have "\<dots> \<le> of_nat n" by (rule of_nat_mono)
    also note n(2)
    finally show ?thesis .
  qed
  have hi: "x < (2::rat) ^ nbits n"
  proof -
    from b(2) have "n + 1 \<le> 2 ^ nbits n" by simp
    then have "(of_nat (n + 1) :: rat) \<le> of_nat (2 ^ nbits n)" by (rule of_nat_mono)
    then have "of_nat n + 1 \<le> (2::rat) ^ nbits n" by simp
    with n(3) show ?thesis by linarith
  qed
  from nb have e1: "nat (int (nbits n) - 1) = nbits n - 1" by simp
  from lo hi nb show ?thesis
    by (simp add: il pow2_def e1)
next
  case False
  with assms have x: "0 < x" "x < 1" by auto
  define k where "k = \<lceil>1 / x\<rceil>"
  define m where "m = nat (k - 1)"
  from x have inv: "1 < 1 / x" by simp
  have k: "of_int k - 1 < 1 / x" "1 / x \<le> of_int k"
    unfolding k_def by linarith+
  from inv k(2) have "(1::rat) < of_int k" by linarith
  then have c: "2 \<le> k" by simp
  then have m: "0 < m" "int m = k - 1" by (simp_all add: m_def)
  from m(2) have "(of_nat m :: rat) = of_int k - 1"
    by (metis of_int_1 of_int_diff of_int_of_nat_eq)
  with k have mlo: "of_nat m < 1 / x" and mhi: "1 / x \<le> of_nat m + 1"
    by simp_all
  from nbits_bounds [OF m(1)] have b: "2 ^ (nbits m - 1) \<le> m" "m < 2 ^ nbits m"
    by auto
  from m(1) have nb: "0 < nbits m" by (simp add: nbits.simps [of m])
  have il: "ilog2 x = - int (nbits m)"
    using False by (simp add: ilog2_def m_def k_def)
  have A: "(2::rat) ^ (nbits m - 1) < 1 / x"
  proof -
    have "(2::rat) ^ (nbits m - 1) = of_nat (2 ^ (nbits m - 1))" by simp
    also from b(1) have "\<dots> \<le> of_nat m" by (rule of_nat_mono)
    also note mlo
    finally show ?thesis .
  qed
  have B: "1 / x \<le> (2::rat) ^ nbits m"
  proof -
    from b(2) have "m + 1 \<le> 2 ^ nbits m" by simp
    then have "(of_nat (m + 1) :: rat) \<le> of_nat (2 ^ nbits m)" by (rule of_nat_mono)
    then have "of_nat m + 1 \<le> (2::rat) ^ nbits m" by simp
    with mhi show ?thesis by linarith
  qed
  from B x(1) have lo: "1 / 2 ^ nbits m \<le> x"
    by (simp add: field_simps)
  from A x(1) have hi: "x < 1 / 2 ^ (nbits m - 1)"
    by (simp add: field_simps)
  show ?thesis
  proof (cases "nbits m = 1")
    case True
    with lo hi show ?thesis by (simp add: il pow2_def)
  next
    case False
    with nb have big: "1 < nbits m" by simp
    then have e: "nat (int (nbits m) - 1) = nbits m - 1" "\<not> 0 \<le> - int (nbits m) + 1"
      by auto
    from lo hi nb big x(2) show ?thesis
      by (simp add: il pow2_def e)
  qed
qed


lemma pow2_powi: "pow2 e = 2 powi e"
  by (simp add: pow2_def power_int_def power_one_over inverse_eq_divide)

lemma pow2_pos: "0 < pow2 e"
  by (simp add: pow2_powi)

lemma tie_to_even_cases: "tie_to_even f d = f \<or> tie_to_even f d = f + 1"
  by (simp add: tie_to_even_def)

lemma tie_to_even_near:
  assumes "0 \<le> d" and "d < 1"
  shows "\<bar>of_int (tie_to_even f d) - (of_int f + d)\<bar> \<le> 1 / 2"
proof -
  consider "d < 1 / 2" | "1 / 2 < d" | "d = 1 / 2" by linarith
  then show ?thesis
  proof cases
    case 1
    then have "tie_to_even f d = f" by (simp add: tie_to_even_def)
    with 1 assms show ?thesis by simp
  next
    case 2
    then have "tie_to_even f d = f + 1" by (simp add: tie_to_even_def)
    with 2 assms show ?thesis by simp
  next
    case 3
    from tie_to_even_cases [of f d] show ?thesis
    proof
      assume "tie_to_even f d = f"
      with 3 show ?thesis by simp
    next
      assume "tie_to_even f d = f + 1"
      with 3 show ?thesis by simp
    qed
  qed
qed

lemma round_even_near: "\<bar>of_int (round_even y) - y\<bar> \<le> 1 / 2"
proof -
  have "0 \<le> y - of_int \<lfloor>y\<rfloor>" "y - of_int \<lfloor>y\<rfloor> < 1"
    by linarith+
  from tie_to_even_near [OF this, of "\<lfloor>y\<rfloor>"] show ?thesis
    by (simp add: round_even_def round_from_def)
qed

lemma round_even_bounds:
  assumes "0 \<le> y" and "y < of_int N"
  shows "0 \<le> round_even y \<and> round_even y \<le> N"
proof -
  from assms have "0 \<le> \<lfloor>y\<rfloor>" "\<lfloor>y\<rfloor> < N"
    by (simp_all add: floor_less_iff)
  with tie_to_even_cases [of "\<lfloor>y\<rfloor>" "y - of_int \<lfloor>y\<rfloor>"] show ?thesis
    unfolding round_even_def round_from_def by linarith
qed

lemma fl_nearest:
  assumes "0 < x"
  shows "\<exists>m. 0 \<le> m \<and> m \<le> 2 ^ 53 \<and>
    fl x = of_int m * pow2 (max (ilog2 x - 52) (- 1074)) \<and>
    \<bar>fl x - x\<bar> \<le> pow2 (max (ilog2 x - 52) (- 1074)) / 2"
proof -
  define e where "e = max (ilog2 x - 52) (- 1074)"
  define m where "m = round_even (x / pow2 e)"
  have pos: "0 < pow2 e" by (rule pow2_pos)
  have fl: "fl x = of_int m * pow2 e"
    using assms by (simp add: fl_def round_at_def e_def m_def)
  have "\<bar>of_int m - x / pow2 e\<bar> \<le> 1 / 2"
    unfolding m_def by (rule round_even_near)
  then have "\<bar>of_int m - x / pow2 e\<bar> * pow2 e \<le> 1 / 2 * pow2 e"
    using pos by (simp only: mult_le_cancel_right_pos)
  moreover have "\<bar>of_int m - x / pow2 e\<bar> * pow2 e = \<bar>of_int m * pow2 e - x\<bar>"
  proof -
    have "\<bar>of_int m - x / pow2 e\<bar> * pow2 e = \<bar>(of_int m - x / pow2 e) * pow2 e\<bar>"
      using pos by (simp add: abs_mult)
    also have "(of_int m - x / pow2 e) * pow2 e = of_int m * pow2 e - x"
      using pos by (simp add: field_simps)
    finally show ?thesis .
  qed
  ultimately have near: "\<bar>fl x - x\<bar> \<le> pow2 e / 2"
    by (simp add: fl)
  have "x < pow2 (ilog2 x + 1)"
    using ilog2_bounds [OF assms] by simp
  also have "pow2 (ilog2 x + 1) = pow2 (ilog2 x - 52) * 2 ^ 53"
  proof -
    have "ilog2 x + 1 = ilog2 x - 52 + 53" by simp
    then have "(2::rat) powi (ilog2 x + 1) = 2 powi (ilog2 x - 52 + 53)" by (simp only:)
    also have "\<dots> = 2 powi (ilog2 x - 52) * 2 powi 53"
      by (rule power_int_add) simp
    finally show ?thesis by (simp only: pow2_powi power_int_numeral)
  qed
  also have "\<dots> \<le> pow2 e * 2 ^ 53"
  proof -
    have "pow2 (ilog2 x - 52) \<le> pow2 e"
      unfolding pow2_powi e_def by (rule power_int_increasing) simp_all
    then show ?thesis by (rule mult_right_mono) simp
  qed
  finally have "x < pow2 e * 2 ^ 53" .
  then have "x < 2 ^ 53 * pow2 e"
    by (subst mult.commute)
  with pos have "x / pow2 e < 2 ^ 53"
    by (simp only: pos_divide_less_eq)
  then have below: "x / pow2 e < of_int (2 ^ 53)"
    by (simp only: of_int_power of_int_numeral)
  have above: "0 \<le> x / pow2 e"
    using assms pos by (intro divide_nonneg_pos) simp_all
  from round_even_bounds [OF above below]
  have "0 \<le> m \<and> m \<le> 2 ^ 53 \<and> fl x = of_int m * pow2 e \<and> \<bar>fl x - x\<bar> \<le> pow2 e / 2"
    using fl near unfolding m_def by (intro conjI) (elim conjE, assumption)+
  then show ?thesis
    unfolding e_def by (rule exI)
qed

lemma fl_minus: "fl (- x) = - fl x"
  by (simp add: fl_def)

text \<open>Evaluating \<open>fl\<close> on numerals.\<close>

lemmas fl_eval =
  js_mul_def js_div_def fl_def ilog2_def round_even_def round_from_def tie_to_even_def
  round_at_def pow2_def Math_round_def

text \<open>
  Where the code and exact arithmetic part: 35 percent of 90 minutes is 31.5 minutes, which
  rounds to 32, but the double nearest to 0.35 lies below 0.35, the product is the double
  just below 31.5, and \<^verbatim>\<open>Math.round\<close> gives 31.
\<close>

lemma double_rounding_35_percent_of_90:
  "Math_round (js_mul (js_div 35 100) 90) = 31 \<and> \<lfloor>(35 :: rat) * 90 / 100 + 1 / 2\<rfloor> = 32"
  by (simp add: fl_eval)

text \<open>
  The percentages of the five templates are 10, 15, 20, 25, 30 and 50. For these and every
  whole number of minutes from 5 to 120 the code's result is the exact product rounded half
  up.
\<close>

lemma js_div_10: "js_div 10 100 = 3602879701896397 / 36028797018963968"
  by (simp add: fl_eval)

lemma js_div_15: "js_div 15 100 = 5404319552844595 / 36028797018963968"
  by (simp add: fl_eval)

lemma js_div_20: "js_div 20 100 = 3602879701896397 / 18014398509481984"
  by (simp add: fl_eval)

lemma js_div_25: "js_div 25 100 = 1 / 4"
  by (simp add: fl_eval)

lemma js_div_30: "js_div 30 100 = 5404319552844595 / 18014398509481984"
  by (simp add: fl_eval)

lemma js_div_50: "js_div 50 100 = 1 / 2"
  by (simp add: fl_eval)

lemma minutes_10:
  "D \<in> set [5..120] \<Longrightarrow>
   Math_round (js_mul (js_div 10 100) (of_int D)) = \<lfloor>(10 :: rat) * of_int D / 100 + 1 / 2\<rfloor>"
  unfolding js_div_10
  by (simp add: upto_rec_numeral, elim disjE) (simp_all add: fl_eval)

lemma minutes_15:
  "D \<in> set [5..120] \<Longrightarrow>
   Math_round (js_mul (js_div 15 100) (of_int D)) = \<lfloor>(15 :: rat) * of_int D / 100 + 1 / 2\<rfloor>"
  unfolding js_div_15
  by (simp add: upto_rec_numeral, elim disjE) (simp_all add: fl_eval)

lemma minutes_20:
  "D \<in> set [5..120] \<Longrightarrow>
   Math_round (js_mul (js_div 20 100) (of_int D)) = \<lfloor>(20 :: rat) * of_int D / 100 + 1 / 2\<rfloor>"
  unfolding js_div_20
  by (simp add: upto_rec_numeral, elim disjE) (simp_all add: fl_eval)

lemma minutes_25:
  "D \<in> set [5..120] \<Longrightarrow>
   Math_round (js_mul (js_div 25 100) (of_int D)) = \<lfloor>(25 :: rat) * of_int D / 100 + 1 / 2\<rfloor>"
  unfolding js_div_25
  by (simp add: upto_rec_numeral, elim disjE) (simp_all add: fl_eval)

lemma minutes_30:
  "D \<in> set [5..120] \<Longrightarrow>
   Math_round (js_mul (js_div 30 100) (of_int D)) = \<lfloor>(30 :: rat) * of_int D / 100 + 1 / 2\<rfloor>"
  unfolding js_div_30
  by (simp add: upto_rec_numeral, elim disjE) (simp_all add: fl_eval)

lemma minutes_50:
  "D \<in> set [5..120] \<Longrightarrow>
   Math_round (js_mul (js_div 50 100) (of_int D)) = \<lfloor>(50 :: rat) * of_int D / 100 + 1 / 2\<rfloor>"
  unfolding js_div_50
  by (simp add: upto_rec_numeral, elim disjE) (simp_all add: fl_eval)

lemma template_percentages:
  "durationPercent ` set (structure (getTemplate t)) \<subseteq> {10, 15, 20, 25, 30, 50}"
  by (cases t)
    (simp_all add: keynoteTemplate_def technicalDeepDiveTemplate_def workshopTemplate_def
      lightningTalkTemplate_def panelDiscussionTemplate_def)

lemma template_minutes_exact:
  assumes "5 \<le> D" and "D \<le> 120" and "section \<in> set (structure (getTemplate t))"
  shows "Math_round (js_mul (js_div (durationPercent section) 100) (of_int D)) =
    \<lfloor>durationPercent section * of_int D / 100 + 1 / 2\<rfloor>"
proof -
  from assms(1,2) have D: "D \<in> set [5..120]" by (simp only: set_upto atLeastAtMost_iff)
  from assms(3) template_percentages [of t]
  have "durationPercent section \<in> {10, 15, 20, 25, 30, 50}" by blast
  with minutes_10 [OF D] minutes_15 [OF D] minutes_20 [OF D] minutes_25 [OF D]
    minutes_30 [OF D] minutes_50 [OF D]
  show ?thesis
    by auto
qed

subsection \<open>The outline builder\<close>

lemma show_nat_digit: "n < 10 \<Longrightarrow> show_nat n = [digit_char n]"
  by (simp add: show_nat.simps)

text \<open>
  Claim C4, as stated, gives the \<open>i\<close>-th section the duration
  \<open>round (durationPercent\<^sub>i / 100 * D)\<close> for every template and every integer \<open>D\<close> from 5
  to 120. The code computes the quotient and the product in doubles, and for the template
  \<open>caseStudyTemplate\<close> and 90 minutes the first section gets 31 minutes where the stated
  formula gives 32: 35 percent of 90 is 31.5.
\<close>

theorem generateOutlineFromTemplate_not_exact_rounding:
  "(90 :: int) \<in> {5..120} \<and>
   os_duration (to_sections (generateOutlineFromTemplate caseStudyTemplate ''Migrating a monolith'' 90) ! 0) = 31 \<and>
   Math_round (durationPercent (structure caseStudyTemplate ! 0) / 100 * 90) = 32"
proof -
  have "to_sections (generateOutlineFromTemplate caseStudyTemplate ''Migrating a monolith'' 90) ! 0 =
    outlineSection 90 (0, structure caseStudyTemplate ! 0)"
    by (simp add: generateOutlineFromTemplate_def caseStudyTemplate_def)
  moreover have "durationPercent (structure caseStudyTemplate ! 0) = 35"
    by (simp add: caseStudyTemplate_def)
  moreover have "Math_round ((35 :: rat) / 100 * 90) = 32"
    by (simp add: Math_round_def)
  ultimately show ?thesis
    using double_rounding_35_percent_of_90 by (simp add: outlineSection_def)
qed

text \<open>
  Claim C4, as amended. For every template, topic and duration \<open>D\<close>, the outline built by
  \<open>generateOutlineFromTemplate\<close> has as many sections as the template; its \<open>i\<close>-th section
  has the identifier \<open>section-i\<close>, the order \<open>i\<close>, the title, type and notes of the \<open>i\<close>-th
  template section, and the duration \<^verbatim>\<open>Math.round((durationPercent / 100) * D)\<close> with the
  quotient and the product each rounded to a double. For the template of a talk type
  (\<open>getTemplate t\<close>) and an integer \<open>D\<close> from 5 to 120, that duration is
  \<open>round (durationPercent\<^sub>i / 100 * D)\<close> with the quotient and the product exact and halves
  rounded up.
\<close>

theorem generateOutlineFromTemplate_sections:
  "length (to_sections (generateOutlineFromTemplate template tpc D)) = length (structure template) \<and>
   (\<forall>i<length (structure template).
      (template = getTemplate t \<and> 5 \<le> D \<and> D \<le> 120 \<longrightarrow>
         os_duration (to_sections (generateOutlineFromTemplate template tpc D) ! i) =
           Math_round (durationPercent (structure template ! i) / 100 * of_int D)) \<and>
      os_duration (to_sections (generateOutlineFromTemplate template tpc D) ! i) =
        Math_round (js_mul (js_div (durationPercent (structure template ! i)) 100) (of_int D)) \<and>
      os_id (to_sections (generateOutlineFromTemplate template tpc D) ! i) = ''section-'' @ show_nat i \<and>
      os_order (to_sections (generateOutlineFromTemplate template tpc D) ! i) = i \<and>
      os_title (to_sections (generateOutlineFromTemplate template tpc D) ! i) = ts_title (structure template ! i) \<and>
      os_type (to_sections (generateOutlineFromTemplate template tpc D) ! i) = ts_type (structure template ! i) \<and>
      os_notes (to_sections (generateOutlineFromTemplate template tpc D) ! i) = Some (ts_notes (structure template ! i)))"
proof -
  have len: "length (to_sections (generateOutlineFromTemplate template tpc D)) = length (structure template)"
    by (simp add: generateOutlineFromTemplate_def)
  have nth: "to_sections (generateOutlineFromTemplate template tpc D) ! i =
      outlineSection D (i, structure template ! i)"
    if "i < length (structure template)" for i
    using that by (simp add: generateOutlineFromTemplate_def nth_enumerate_eq)
  have exact: "Math_round (js_mul (js_div (durationPercent (structure template ! i)) 100) (of_int D)) =
      Math_round (durationPercent (structure template ! i) / 100 * of_int D)"
    if "i < length (structure template)" and "template = getTemplate t" and "5 \<le> D" and "D \<le> 120" for i
  proof -
    from that(1,2) have "structure template ! i \<in> set (structure (getTemplate t))"
      by simp
    from template_minutes_exact [OF that(3,4) this] show ?thesis
      by (simp add: Math_round_def)
  qed
  have sec: "(template = getTemplate t \<and> 5 \<le> D \<and> D \<le> 120 \<longrightarrow>
         os_duration (to_sections (generateOutlineFromTemplate template tpc D) ! i) =
           Math_round (durationPercent (structure template ! i) / 100 * of_int D)) \<and>
      os_duration (to_sections (generateOutlineFromTemplate template tpc D) ! i) =
        Math_round (js_mul (js_div (durationPercent (structure template ! i)) 100) (of_int D)) \<and>
      os_id (to_sections (generateOutlineFromTemplate template tpc D) ! i) = ''section-'' @ show_nat i \<and>
      os_order (to_sections (generateOutlineFromTemplate template tpc D) ! i) = i \<and>
      os_title (to_sections (generateOutlineFromTemplate template tpc D) ! i) = ts_title (structure template ! i) \<and>
      os_type (to_sections (generateOutlineFromTemplate template tpc D) ! i) = ts_type (structure template ! i) \<and>
      os_notes (to_sections (generateOutlineFromTemplate template tpc D) ! i) = Some (ts_notes (structure template ! i))"
    if i: "i < length (structure template)" for i
  proof -
    have "os_duration (to_sections (generateOutlineFromTemplate template tpc D) ! i) =
        Math_round (js_mul (js_div (durationPercent (structure template ! i)) 100) (of_int D))"
      by (simp only: nth [OF i]) (simp add: outlineSection_def)
    with exact [OF i] show ?thesis
      by (simp only: nth [OF i]) (simp add: outlineSection_def)
  qed
  from len sec show ?thesis
    by blast
qed

theorem generateOutlineFromTemplate_sections_witness:
  "(1::nat) < length (structure (getTemplate LightningTalk)) \<and> (5 :: int) \<le> 5 \<and> (5 :: int) \<le> 120 \<and>
   length (to_sections (generateOutlineFromTemplate (getTemplate LightningTalk) ''Rust in 5 minutes'' 5)) = 3 \<and>
   os_duration (to_sections (generateOutlineFromTemplate (getTemplate LightningTalk) ''Rust in 5 minutes'' 5) ! 1) = 3 \<and>
   Math_round (durationPercent (structure (getTemplate LightningTalk) ! 1) / 100 * 5) = 3 \<and>
   Math_round (js_mul (js_div (durationPercent (structure (getTemplate LightningTalk) ! 1)) 100) 5) = 3 \<and>
   os_id (to_sections (generateOutlineFromTemplate (getTemplate LightningTalk) ''Rust in 5 minutes'' 5) ! 1) = ''section-1'' \<and>
   os_order (to_sections (generateOutlineFromTemplate (getTemplate LightningTalk) ''Rust in 5 minutes'' 5) ! 1) = 1 \<and>
   os_title (to_sections (generateOutlineFromTemplate (getTemplate LightningTalk) ''Rust in 5 minutes'' 5) ! 1) = ''The Insight'' \<and>
   os_type (to_sections (generateOutlineFromTemplate (getTemplate LightningTalk) ''Rust in 5 minutes'' 5) ! 1) = MainSection \<and>
   os_notes (to_sections (generateOutlineFromTemplate (getTemplate LightningTalk) ''Rust in 5 minutes'' 5) ! 1) = Some ''One point only. Go deep, not wide.''"
proof -
  have len: "(1::nat) < length (structure (getTemplate LightningTalk))"
    by (simp add: lightningTalkTemplate_def)
  have len3: "length (structure lightningTalkTemplate) = 3"
    by (simp add: lightningTalkTemplate_def)
  have sec: "structure lightningTalkTemplate ! Suc 0 =
    \<lparr>ts_title = ''The Insight'', ts_type = MainSection, durationPercent = 50,
      keyPointPrompts = [''Explain your key point clearly'', ''Give one concrete example'', ''Make it memorable''],
      ts_notes = ''One point only. Go deep, not wide.''\<rparr>"
    by (simp add: lightningTalkTemplate_def)
  have exact: "Math_round (5 / 2) = 3"
    by (simp add: Math_round_def)
  have double: "Math_round (js_mul (js_div 50 100) 5) = 3"
    by (simp add: fl_eval)
  note all = generateOutlineFromTemplate_sections
    [of "getTemplate LightningTalk" "''Rust in 5 minutes''" 5 LightningTalk]
  note at1 = all [THEN conjunct2, rule_format, OF len]
  from all [THEN conjunct1] at1 len show ?thesis
    by (simp add: len3 sec exact double show_nat_digit digit_char_def)
qed

subsection \<open>Q&A preparation\<close>

lemma foldl_pushQuestion:
  "foldl pushQuestion st qs =
     (fst st @ map (\<lambda>(n, q). withId q (''q-'' @ show_nat n)) (enumerate (snd st) qs),
      snd st + length qs)"
proof (induction qs arbitrary: st)
  case Nil
  then show ?case by simp
next
  case (Cons q qs)
  show ?case
    by (simp add: Cons.IH) (simp add: pushQuestion_def)
qed

lemma foldl_pushSectionQuestion:
  "foldl pushSectionQuestion st secs =
     foldl pushQuestion st
       (map sectionQuestion
         (filter (\<lambda>s. os_type s = MainSection \<and> os_keyPoints s \<noteq> []) secs))"
  by (induction secs arbitrary: st) (simp_all add: pushSectionQuestion_def)

lemma length_genericQuestions: "length genericQuestions = 5"
  by (simp add: genericQuestions_def)

lemma length_audienceQuestions: "length (audienceQuestions a) = 2"
  by (cases a) simp_all

lemma length_generateRedirectStrategies: "length generateRedirectStrategies = 6"
  by (simp add: generateRedirectStrategies_def)

text \<open>
  Claim C8. For every configuration and outline, the anticipated questions of
  \<open>createQAPreparation\<close> are the 5 generic questions, then the 2 questions of the
  configuration's audience, then one \<open>sectionQuestion\<close> (``Can you tell us more about'' the
  first key point) for each section of type main with at least one key point, in outline
  order; the identifiers are \<open>q-1\<close>, \<open>q-2\<close>, ... in that order. The redirect strategies are
  the fixed list of 6 entries, whatever the inputs.
\<close>

theorem createQAPreparation_questions:
  "anticipatedQuestions (createQAPreparation cfg outl) =
     map (\<lambda>(n, q). withId q (''q-'' @ show_nat n))
       (enumerate 1
         (genericQuestions @ audienceQuestions (audience cfg) @
          map sectionQuestion
            (filter (\<lambda>s. os_type s = MainSection \<and> os_keyPoints s \<noteq> []) (to_sections outl)))) \<and>
   length genericQuestions = 5 \<and>
   length (audienceQuestions (audience cfg)) = 2 \<and>
   redirectStrategies (createQAPreparation cfg outl) = generateRedirectStrategies \<and>
   length generateRedirectStrategies = 6"
  by (simp add: createQAPreparation_def generateAnticipatedQuestions_def Let_def
      foldl_pushQuestion foldl_pushSectionQuestion enumerate_append_eq
      length_genericQuestions length_audienceQuestions length_generateRedirectStrategies
      add.commute)

theorem createQAPreparation_questions_witness:
  "length (anticipatedQuestions (createQAPreparation exampleConfig exampleOutline)) = 8 \<and>
   map qa_id (anticipatedQuestions (createQAPreparation exampleConfig exampleOutline)) =
     [''q-1'', ''q-2'', ''q-3'', ''q-4'', ''q-5'', ''q-6'', ''q-7'', ''q-8''] \<and>
   question (anticipatedQuestions (createQAPreparation exampleConfig exampleOutline) ! 5) =
     ''What's the performance impact of this approach?'' \<and>
   question (anticipatedQuestions (createQAPreparation exampleConfig exampleOutline) ! 7) =
     ''Can you tell us more about '' @ [CHR 0x22] @ ''GraphQL basics'' @ [CHR 0x22] @ ''?'' \<and>
   length (redirectStrategies (createQAPreparation exampleConfig exampleOutline)) = 6"
  using createQAPreparation_questions [of exampleConfig exampleOutline]
  by (simp add: exampleConfig_def exampleOutline_def genericQuestions_def sectionQuestion_def
      withId_def enumerate_eq_zip upt_rec show_nat_digit digit_char_def)

subsection \<open>Rehearsal timing\<close>

text \<open>
  Claim C6. \<open>updateSectionTiming\<close> returns a session whose identifier, start time, end
  time and feedback are those of the given session and whose section list has the same
  length; every section whose \<open>sectionId\<close> is the given one has its actual duration set to
  the given value and its status to completed, every other section is unchanged; and when
  no section has the given identifier the section list is the one given.
\<close>

theorem updateSectionTiming_frame:
  "rh_id (updateSectionTiming session sid a) = rh_id session \<and>
   startTime (updateSectionTiming session sid a) = startTime session \<and>
   endTime (updateSectionTiming session sid a) = endTime session \<and>
   feedback (updateSectionTiming session sid a) = feedback session \<and>
   length (rh_sections (updateSectionTiming session sid a)) = length (rh_sections session) \<and>
   (\<forall>i<length (rh_sections session).
      (rt_sectionId (rh_sections session ! i) = sid \<longrightarrow>
         rh_sections (updateSectionTiming session sid a) ! i =
           (rh_sections session ! i)\<lparr>actualDuration := Some a, status := Completed\<rparr>) \<and>
      (rt_sectionId (rh_sections session ! i) \<noteq> sid \<longrightarrow>
         rh_sections (updateSectionTiming session sid a) ! i = rh_sections session ! i)) \<and>
   ((\<forall>s\<in>set (rh_sections session). rt_sectionId s \<noteq> sid) \<longrightarrow>
      rh_sections (updateSectionTiming session sid a) = rh_sections session)"
proof -
  have "(\<forall>s\<in>set secs. rt_sectionId s \<noteq> sid) \<longrightarrow>
      map (\<lambda>section. if rt_sectionId section = sid
          then section\<lparr>actualDuration := Some a, status := Completed\<rparr> else section) secs = secs"
    for secs
    by (induction secs) simp_all
  then show ?thesis
    by (simp add: updateSectionTiming_def)
qed

theorem updateSectionTiming_frame_witness:
  "(1::nat) < length (rh_sections exampleSession) \<and>
   rt_sectionId (rh_sections exampleSession ! 1) = ''section-1'' \<and>
   rh_sections (updateSectionTiming exampleSession ''section-1'' 95) ! 1 =
     \<lparr>rt_sectionId = ''section-1'', targetDuration = 180, actualDuration = Some 95,
      status = Completed\<rparr> \<and>
   rt_sectionId (rh_sections exampleSession ! 0) \<noteq> ''section-1'' \<and>
   rh_sections (updateSectionTiming exampleSession ''section-1'' 95) ! 0 =
     \<lparr>rt_sectionId = ''section-0'', targetDuration = 60, actualDuration = None,
      status = NotStarted\<rparr> \<and>
   ''section-9'' \<notin> rt_sectionId ` set (rh_sections exampleSession) \<and>
   rh_sections (updateSectionTiming exampleSession ''section-9'' 95) = rh_sections exampleSession \<and>
   feedback (updateSectionTiming exampleSession ''section-1'' 95) = feedback exampleSession"
proof -
  have secs: "rh_sections exampleSession =
      [\<lparr>rt_sectionId = ''section-0'', targetDuration = 60, actualDuration = None, status = NotStarted\<rparr>,
       \<lparr>rt_sectionId = ''section-1'', targetDuration = 180, actualDuration = None, status = NotStarted\<rparr>]"
    by (simp add: exampleSession_def)
  have i0: "(0::nat) < length (rh_sections exampleSession)"
    and i1: "(1::nat) < length (rh_sections exampleSession)"
    by (simp_all add: secs)
  have none: "\<forall>s\<in>set (rh_sections exampleSession). rt_sectionId s \<noteq> ''section-9''"
    by (simp add: secs)
  note hit = updateSectionTiming_frame [of exampleSession "''section-1''" 95]
  note miss = updateSectionTiming_frame [of exampleSession "''section-9''" 95]
  have at1: "rh_sections (updateSectionTiming exampleSession ''section-1'' 95) ! 1 =
      (rh_sections exampleSession ! 1)\<lparr>actualDuration := Some 95, status := Completed\<rparr>"
    using hit i1 by (simp add: secs)
  have at0: "rh_sections (updateSectionTiming exampleSession ''section-1'' 95) ! 0 =
      rh_sections exampleSession ! 0"
    using hit i0 by (simp add: secs)
  have same: "rh_sections (updateSectionTiming exampleSession ''section-9'' 95) =
      rh_sections exampleSession"
    using miss none by blast
  have fb: "feedback (updateSectionTiming exampleSession ''section-1'' 95) = feedback exampleSession"
    using hit by blast
  show ?thesis
    using at0 at1 same fb by (simp add: secs)
qed

subsection \<open>The workflow coordinator\<close>

lemma forget_Inr: "forget r = Inr this' \<longleftrightarrow> (\<exists>v. r = Inr (v, this'))"
  by (auto simp add: forget_def split: sum.splits)

lemma stateOutline_Some: "stateOutline this = Some (s, outl) \<Longrightarrow> state this = Some s"
  by (auto simp add: stateOutline_def split: option.splits)

lemma currentStep_completeStep [simp]: "currentStep (completeStep step s) = currentStep s"
  by (simp add: completeStep_def)

lemma perform_currentStep:
  assumes "state this = Some s" and "perform c this = Inr this'"
  shows "\<exists>s'. state this' = Some s' \<and>
           (currentStep s' = currentStep s \<or> targetStep c = Some (currentStep s'))"
proof (cases c)
  case (SetResearchResults r)
  with assms show ?thesis
    by (auto simp add: forget_Inr setResearchResults_def)
next
  case (GenerateOutline ks)
  with assms show ?thesis
    by (auto simp add: forget_Inr generateOutline_def Let_def)
next
  case (SetOutline outl)
  with assms show ?thesis
    by (auto simp add: forget_Inr setOutline_def Let_def)
next
  case GenerateScript
  with assms show ?thesis
    by (auto simp add: forget_Inr generateScript_def Let_def
        split: option.splits dest: stateOutline_Some)
next
  case (SetScript scr)
  with assms show ?thesis
    by (auto simp add: forget_Inr setScript_def Let_def)
next
  case (GenerateSlides clock iso1 iso2)
  with assms show ?thesis
    by (auto simp add: forget_Inr generateSlides_def Let_def
        split: option.splits dest: stateOutline_Some)
next
  case (SetSlides deck)
  with assms show ?thesis
    by (auto simp add: forget_Inr setSlides_def Let_def)
next
  case GenerateQAPrep
  with assms show ?thesis
    by (auto simp add: forget_Inr generateQAPrep_def Let_def
        split: option.splits dest: stateOutline_Some)
next
  case (StartRehearsal now start)
  with assms show ?thesis
    by (auto simp add: forget_Inr startRehearsal_def Let_def
        split: option.splits dest: stateOutline_Some)
qed

text \<open>
  Claim C1, as amended. On an initialized session every sequence of calls leaves the session
  initialized, and the current step after the sequence is the step before it or the step
  that one of the calls of the sequence assigns: \<open>outline\<close> for setResearchResults,
  \<open>content\<close> for setOutline, \<open>export\<close> for setScript, \<open>rehearsal\<close> for setSlides.
  The other calls assign no step. No call compares the step it assigns with the step the
  session is in.
\<close>

theorem run_currentStep:
  "state this = Some s \<Longrightarrow>
   \<exists>s'. state (run cs this) = Some s' \<and>
     (currentStep s' = currentStep s \<or> Some (currentStep s') \<in> targetStep ` set cs)"
proof (induction cs arbitrary: this s)
  case Nil
  then show ?case by simp
next
  case (Cons c cs)
  show ?case
  proof (cases "perform c this")
    case (Inl e)
    with Cons.IH [OF Cons.prems] show ?thesis by auto
  next
    case (Inr this')
    from perform_currentStep [OF Cons.prems Inr] obtain s1 where
      s1: "state this' = Some s1" and
      step: "currentStep s1 = currentStep s \<or> targetStep c = Some (currentStep s1)"
      by blast
    from Cons.IH [OF s1] obtain s' where
      s': "state (run cs this') = Some s'" and
      after: "currentStep s' = currentStep s1 \<or> Some (currentStep s') \<in> targetStep ` set cs"
      by blast
    from s' Inr have "state (run (c # cs) this) = Some s'" by simp
    moreover from step after
    have "currentStep s' = currentStep s \<or> Some (currentStep s') \<in> targetStep ` set (c # cs)"
      by (auto simp add: image_iff)
    ultimately show ?thesis by blast
  qed
qed


lemma state_exampleSkill:
  "state exampleSkill =
     Some \<lparr>currentStep = Ideation, completedSteps = [], config = exampleConfig,
       research = None, outline = None, script = None, ws_slides = None, qaPrep = None,
       rehearsals = []\<rparr>"
  by (simp add: exampleSkill_def initialize_def acceptTopic_def exampleConfig_def
      createTalkPrepSkill_def Let_def)

lemma state_setSlides:
  "state this = Some s \<Longrightarrow>
   forget (setSlides deck this) =
     Inr (this\<lparr>state := Some ((completeStep ExportStep (s\<lparr>ws_slides := Some deck\<rparr>))
                                 \<lparr>currentStep := Rehearsal\<rparr>)\<rparr>)"
  by (simp add: setSlides_def forget_def Let_def)

lemma state_setResearchResults:
  "state this = Some s \<Longrightarrow>
   forget (setResearchResults r this) =
     Inr (this\<lparr>state := Some ((completeStep Ideation (s\<lparr>research := Some r\<rparr>))
                                 \<lparr>currentStep := OutlineStep\<rparr>)\<rparr>)"
  by (simp add: setResearchResults_def forget_def)

text \<open>
  Claim C1 as stated fails: on a freshly initialized session, at step \<open>ideation\<close>,
  setSlides moves the current step to \<open>rehearsal\<close>, past \<open>outline\<close>, \<open>content\<close> and
  \<open>export\<close>; setResearchResults then moves it back to \<open>outline\<close>.
\<close>

theorem step_skips_and_returns:
  "getCurrentStep exampleSkill = Some Ideation \<and>
   getCurrentStep (run [SetSlides exampleDeck] exampleSkill) = Some Rehearsal \<and>
   getCurrentStep (run [SetSlides exampleDeck, SetResearchResults exampleResearch] exampleSkill)
     = Some OutlineStep \<and>
   stepIndex Rehearsal \<noteq> stepIndex Ideation + 1 \<and>
   stepIndex OutlineStep < stepIndex Rehearsal"
  by (simp add: getCurrentStep_def state_exampleSkill state_setSlides state_setResearchResults)

theorem run_currentStep_witness:
  "getCurrentStep exampleSkill = Some Ideation \<and>
   getCurrentStep (run [GenerateOutline None, SetOutline exampleOutline, GenerateScript] exampleSkill)
     = Some ContentStep \<and>
   targetStep (SetOutline exampleOutline) = Some ContentStep"
proof -
  let ?cs = "[GenerateOutline None, SetOutline exampleOutline, GenerateScript]"
  from run_currentStep [OF state_exampleSkill, of ?cs] obtain s' where
    s': "state (run ?cs exampleSkill) = Some s'" and
    step: "currentStep s' = Ideation \<or> Some (currentStep s') \<in> targetStep ` set ?cs"
    by auto
  have valid: "tv_isValid (validateOutlineTiming exampleOutline)"
    by (simp add: validateOutlineTiming_def exampleOutline_def sectionTimingWarnings_def Let_def)
  have "getCurrentStep (run ?cs exampleSkill) = Some ContentStep"
    by (simp add: getCurrentStep_def state_exampleSkill generateOutline_def setOutline_def
        generateScript_def stateOutline_def forget_def Let_def valid completeStep_def)
  with s' step show ?thesis
    by (simp add: getCurrentStep_def state_exampleSkill)
qed

text \<open>
  Claim C9. When \<open>generateOutline\<close> succeeds, the session it leaves is the session before
  the call with the returned outline in its outline slot: the current step and the completed
  steps are those before the call.
\<close>

theorem generateOutline_keeps_step:
  "generateOutline ks this = Inr (outl, this') \<Longrightarrow>
   \<exists>s. state this = Some s \<and>
       state this' = Some (s\<lparr>outline := Some outl\<rparr>) \<and>
       getCurrentStep this' = Some (currentStep s) \<and>
       map_option completedSteps (state this') = Some (completedSteps s)"
  by (auto simp add: generateOutline_def getCurrentStep_def Let_def split: option.splits)

lemma generateOutline_succeeds:
  "state this = Some s \<Longrightarrow> \<exists>outl this'. generateOutline ks this = Inr (outl, this')"
  by (simp add: generateOutline_def Let_def)

theorem generateOutline_keeps_step_witness:
  "getCurrentStep (run [SetResearchResults exampleResearch] exampleSkill) = Some OutlineStep \<and>
   isStepCompleted Ideation (run [SetResearchResults exampleResearch] exampleSkill) \<and>
   getCurrentStep (run [SetResearchResults exampleResearch, GenerateOutline None] exampleSkill)
     = Some OutlineStep \<and>
   map_option completedSteps
     (state (run [SetResearchResults exampleResearch, GenerateOutline None] exampleSkill))
     = Some [Ideation] \<and>
   map_option (map_option learningObjectives \<circ> outline)
     (state (run [SetResearchResults exampleResearch, GenerateOutline None] exampleSkill))
     = Some (Some [''GraphQL basics'', ''Schema design''])"
proof -
  let ?before = "run [SetResearchResults exampleResearch] exampleSkill"
  have before: "state ?before =
      Some \<lparr>currentStep = OutlineStep, completedSteps = [Ideation], config = exampleConfig,
        research = Some exampleResearch, outline = None, script = None, ws_slides = None,
        qaPrep = None, rehearsals = []\<rparr>"
    by (simp add: state_exampleSkill state_setResearchResults completeStep_def)
  from generateOutline_succeeds [OF before, of None] obtain outl this' where
    call: "generateOutline None ?before = Inr (outl, this')"
    by blast
  from generateOutline_keeps_step [OF call] before
  have after: "state this' =
      Some \<lparr>currentStep = OutlineStep, completedSteps = [Ideation], config = exampleConfig,
        research = Some exampleResearch, outline = Some outl, script = None, ws_slides = None,
        qaPrep = None, rehearsals = []\<rparr>"
    by auto
  have objectives: "learningObjectives outl = [''GraphQL basics'', ''Schema design'']"
    using call before
    by (auto simp add: generateOutline_def Let_def exampleResearch_def)
  have run2: "run [SetResearchResults exampleResearch, GenerateOutline None] exampleSkill = this'"
    using call by (simp add: forget_def)
  show ?thesis
    unfolding run2
    using before after objectives
    by (simp add: getCurrentStep_def isStepCompleted_def)
qed

text \<open>
  Claim C10. When \<open>initialize\<close> reports success, the session it leaves is fresh whatever
  the coordinator held before: the step is \<open>ideation\<close>, no step is completed, there is no
  rehearsal and no research, outline, script, slide deck or Q&A preparation; its
  configuration is the parsed one, and it is the state returned.
\<close>

theorem initialize_fresh_session:
  "initialize safeParse configInput this = (res, this') \<Longrightarrow> success res \<Longrightarrow>
   \<exists>cfg. safeParse configInput = Inr cfg \<and>
     state this' =
       Some \<lparr>currentStep = Ideation, completedSteps = [], config = cfg, research = None,
         outline = None, script = None, ws_slides = None, qaPrep = None, rehearsals = []\<rparr> \<and>
     init_state res = state this'"
  by (auto simp add: initialize_def Let_def split: sum.splits)

theorem initialize_fresh_session_witness:
  "map_option ws_slides (state (run [SetSlides exampleDeck] exampleSkill)) = Some (Some exampleDeck) \<and>
   getCurrentStep (run [SetSlides exampleDeck] exampleSkill) = Some Rehearsal \<and>
   success (fst (initialize acceptTopic exampleConfig (run [SetSlides exampleDeck] exampleSkill))) \<and>
   state (snd (initialize acceptTopic exampleConfig (run [SetSlides exampleDeck] exampleSkill))) =
     Some \<lparr>currentStep = Ideation, completedSteps = [], config = exampleConfig, research = None,
       outline = None, script = None, ws_slides = None, qaPrep = None, rehearsals = []\<rparr>"
proof -
  let ?used = "run [SetSlides exampleDeck] exampleSkill"
  have used: "state ?used =
      Some \<lparr>currentStep = Rehearsal, completedSteps = [ExportStep], config = exampleConfig,
        research = None, outline = None, script = None, ws_slides = Some exampleDeck,
        qaPrep = None, rehearsals = []\<rparr>"
    by (simp add: state_exampleSkill state_setSlides completeStep_def)
  have ok: "success (fst (initialize acceptTopic exampleConfig ?used))"
    by (simp add: initialize_def acceptTopic_def exampleConfig_def Let_def)
  have parsed: "acceptTopic exampleConfig = Inr exampleConfig"
    by (simp add: acceptTopic_def exampleConfig_def)
  from initialize_fresh_session [of acceptTopic exampleConfig ?used
      "fst (initialize acceptTopic exampleConfig ?used)"
      "snd (initialize acceptTopic exampleConfig ?used)"] ok parsed
  have "state (snd (initialize acceptTopic exampleConfig ?used)) =
      Some \<lparr>currentStep = Ideation, completedSteps = [], config = exampleConfig, research = None,
        outline = None, script = None, ws_slides = None, qaPrep = None, rehearsals = []\<rparr>"
    by auto
  with used ok show ?thesis
    by (simp add: getCurrentStep_def)
qed

text \<open>
  Claim C2 as stated fails: without a session, \<open>getDiscoveryQuestions\<close> and
  \<open>getTopicSuggestions\<close> return the empty list, and \<open>generateScript\<close> fails with the
  message that an outline is required.
\<close>

theorem uninitialized_calls_without_SessionNotInitialized:
  "getDiscoveryQuestions createTalkPrepSkill = Inr [] \<and>
   getTopicSuggestions createTalkPrepSkill = Inr [] \<and>
   generateScript createTalkPrepSkill = Inl (Error ''Outline required before generating script'') \<and>
   Error ''Outline required before generating script'' \<noteq> Error ''Session not initialized''"
  by (simp add: getDiscoveryQuestions_def getTopicSuggestions_def generateScript_def
      stateOutline_def createTalkPrepSkill_def)

text \<open>
  Claim C2, as amended. Without a session, \<open>setResearchResults\<close>, \<open>generateOutline\<close>,
  \<open>setOutline\<close>, \<open>setScript\<close>, \<open>setSlides\<close>, \<open>getPracticeSuggestions\<close> and the template
  accessor fail with ``Session not initialized''; \<open>getDiscoveryQuestions\<close> and
  \<open>getTopicSuggestions\<close> return the empty list; \<open>generateScript\<close>, \<open>generateSlides\<close>,
  \<open>generateQAPrep\<close> and \<open>startRehearsal\<close> fail with the message that an outline is required,
  and \<open>exportSlides\<close> with the message that no slides are available.
\<close>

theorem uninitialized_calls:
  "setResearchResults r createTalkPrepSkill = Inl (Error ''Session not initialized'') \<and>
   generateOutline ks createTalkPrepSkill = Inl (Error ''Session not initialized'') \<and>
   setOutline outl createTalkPrepSkill = Inl (Error ''Session not initialized'') \<and>
   setScript scr createTalkPrepSkill = Inl (Error ''Session not initialized'') \<and>
   setSlides deck createTalkPrepSkill = Inl (Error ''Session not initialized'') \<and>
   getPracticeSuggestions createTalkPrepSkill = Inl (Error ''Session not initialized'') \<and>
   getTemplateOfSession createTalkPrepSkill = Inl (Error ''Session not initialized'') \<and>
   getDiscoveryQuestions createTalkPrepSkill = Inr [] \<and>
   getTopicSuggestions createTalkPrepSkill = Inr [] \<and>
   generateScript createTalkPrepSkill = Inl (Error ''Outline required before generating script'') \<and>
   generateSlides clock iso1 iso2 createTalkPrepSkill =
     Inl (Error ''Outline required before generating slides'') \<and>
   generateQAPrep createTalkPrepSkill = Inl (Error ''Outline required'') \<and>
   startRehearsal now start createTalkPrepSkill = Inl (Error ''Outline required'') \<and>
   exportSlides stringify numberToString options createTalkPrepSkill =
     Inl (Error ''No slides available'')"
  by (simp add: setResearchResults_def generateOutline_def setOutline_def setScript_def
      setSlides_def getPracticeSuggestions_def getTemplateOfSession_def
      getDiscoveryQuestions_def getTopicSuggestions_def generateScript_def generateSlides_def
      generateQAPrep_def startRehearsal_def exportSlides_def stateOutline_def
      createTalkPrepSkill_def)

subsection \<open>HTML export\<close>

lemma exportToHtml_title_prefix:
  "prefix (htmlHead @ sd_title deck @ ''</title>'') (er_content (exportToHtml deck options))"
  by (simp add: exportToHtml_def Let_def htmlAfterTitle_def)

lemma replaceChar_absent: "c \<notin> set r \<Longrightarrow> c \<notin> set (replaceChar c r t)"
  by (induction t) (auto simp add: replaceChar_def)

lemma replaceChar_keeps_absent:
  "c \<notin> set t \<Longrightarrow> c \<notin> set r \<Longrightarrow> c \<notin> set (replaceChar d r t)"
  by (induction t) (auto simp add: replaceChar_def)

lemma escapeHtml_no_markup:
  "set (escapeHtml t) \<inter> {CHR ''<'', CHR ''>'', CHR 0x22, CHR 0x27} = {}"
proof -
  let ?a = "replaceChar CHR ''&'' ''&amp;'' t"
  let ?b = "replaceChar CHR ''<'' ''&lt;'' ?a"
  let ?c = "replaceChar CHR ''>'' ''&gt;'' ?b"
  let ?d = "replaceChar (CHR 0x22) ''&quot;'' ?c"
  let ?e = "replaceChar (CHR 0x27) ''&#039;'' ?d"
  have lt_b: "CHR ''<'' \<notin> set ?b" by (rule replaceChar_absent) simp
  have lt_c: "CHR ''<'' \<notin> set ?c" using lt_b by (rule replaceChar_keeps_absent) simp
  have gt_c: "CHR ''>'' \<notin> set ?c" by (rule replaceChar_absent) simp
  have lt_d: "CHR ''<'' \<notin> set ?d" using lt_c by (rule replaceChar_keeps_absent) simp
  have gt_d: "CHR ''>'' \<notin> set ?d" using gt_c by (rule replaceChar_keeps_absent) simp
  have dq_d: "CHR 0x22 \<notin> set ?d" by (rule replaceChar_absent) simp
  have lt_e: "CHR ''<'' \<notin> set ?e" using lt_d by (rule replaceChar_keeps_absent) simp
  have gt_e: "CHR ''>'' \<notin> set ?e" using gt_d by (rule replaceChar_keeps_absent) simp
  have dq_e: "CHR 0x22 \<notin> set ?e" using dq_d by (rule replaceChar_keeps_absent) simp
  have sq_e: "CHR 0x27 \<notin> set ?e" by (rule replaceChar_absent) simp
  from lt_e gt_e dq_e sq_e show ?thesis
    by (simp add: escapeHtml_def)
qed

text \<open>
  Claim C3 fails on the code: \<open>exportToHtml\<close> escapes the texts of the slides, but it
  writes the title of the deck into the \<^verbatim>\<open><title>\<close> element as it is. For the deck
  titled \<^verbatim>\<open><script>alert(1)</script>\<close> the document starts with the head followed by
  that title, unescaped, where \<open>escapeHtml\<close> would have produced the entity-encoded text.
\<close>

theorem exportToHtml_deck_title_unescaped:
  "prefix (htmlHead @ ''<script>alert(1)</script></title>'')
     (er_content (exportToHtml exampleDeck htmlOptions)) \<and>
   escapeHtml ''<script>alert(1)</script>'' = ''&lt;script&gt;alert(1)&lt;/script&gt;''"
proof -
  have "sd_title exampleDeck = ''<script>alert(1)</script>''"
    by (simp add: exampleDeck_def scriptTitle_def)
  with exportToHtml_title_prefix [of exampleDeck htmlOptions]
  have "prefix (htmlHead @ ''<script>alert(1)</script></title>'')
     (er_content (exportToHtml exampleDeck htmlOptions))"
    by simp
  moreover have "escapeHtml ''<script>alert(1)</script>'' = ''&lt;script&gt;alert(1)&lt;/script&gt;''"
    by (simp add: escapeHtml_def replaceChar_def)
  ultimately show ?thesis by simp
qed

subsection \<open>JSON export\<close>

lemma getField_slides: "getField ''slides'' (exportData deck options) =
    Some (JArr (map (slideJson options) (slides deck)))"
  by (simp add: getField_def exportData_def optField_def split: option.splits)

lemma getField_id: "getField ''id'' (slideJson options slide) = Some (JStr (sl_id slide))"
  by (simp add: getField_def slideJson_def)

lemma getField_order:
  "getField ''order'' (slideJson options slide) = Some (JNum (of_nat (sl_order slide)))"
  by (simp add: getField_def slideJson_def)

text \<open>
  Claim C7. \<open>stringify\<close> and \<open>parse\<close> stand for \<^verbatim>\<open>JSON.stringify\<close> and \<^verbatim>\<open>JSON.parse\<close>
  of the platform, of which the proof uses one property: parsing what was serialised gives
  the value back. Then, for every deck and all options, parsing the content of the JSON
  export gives a value whose \<open>slides\<close> property is an array as long as the slide list of
  the deck, and its \<open>i\<close>-th element has the \<open>id\<close> and the \<open>order\<close> of the \<open>i\<close>-th slide.
\<close>

theorem exportToJson_roundtrip_slides:
  assumes roundtrip: "\<forall>v. parse (stringify v) = Some v"
  shows "\<exists>v ss.
     parse (er_content (exportSlideDeck stringify numberToString deck (options\<lparr>eo_format := Json\<rparr>)))
       = Some v \<and>
     getField ''slides'' v = Some (JArr ss) \<and>
     length ss = length (slides deck) \<and>
     (\<forall>i<length (slides deck).
        getField ''id'' (ss ! i) = Some (JStr (sl_id (slides deck ! i))) \<and>
        getField ''order'' (ss ! i) = Some (JNum (of_nat (sl_order (slides deck ! i)))))"
proof -
  let ?options = "options\<lparr>eo_format := Json\<rparr>"
  have "er_content (exportSlideDeck stringify numberToString deck ?options) =
      stringify (exportData deck ?options)"
    by (simp add: exportSlideDeck_def exportToJson_def)
  with roundtrip
  have "parse (er_content (exportSlideDeck stringify numberToString deck ?options)) =
      Some (exportData deck ?options)"
    by simp
  then show ?thesis
    by (auto simp add: getField_slides getField_id getField_order)
qed

lemma parseUnary_stringifyUnary: "parseUnary (stringifyUnary v) = Some v"
  by (simp add: parseUnary_def stringifyUnary_def)

theorem exportToJson_roundtrip_slides_witness:
  "(\<forall>v. parseUnary (stringifyUnary v) = Some v) \<and>
   (case parseUnary (er_content
            (exportSlideDeck stringifyUnary wholeNumberToString exampleDeck jsonOptions)) of
      None \<Rightarrow> False
    | Some v \<Rightarrow>
        (case getField ''slides'' v of
           Some (JArr ss) \<Rightarrow>
             map (getField ''id'') ss = [Some (JStr ''slide-0-17''), Some (JStr ''slide-1-18'')] \<and>
             map (getField ''order'') ss = [Some (JNum 0), Some (JNum 1)]
         | _ \<Rightarrow> False))"
proof -
  have roundtrip: "\<forall>v. parseUnary (stringifyUnary v) = Some v"
    by (simp add: parseUnary_stringifyUnary)
  have options: "jsonOptions\<lparr>eo_format := Json\<rparr> = jsonOptions"
    by (simp add: jsonOptions_def)
  have len: "length (slides exampleDeck) = 2"
    by (simp add: exampleDeck_def)
  from exportToJson_roundtrip_slides [OF roundtrip, of wholeNumberToString exampleDeck jsonOptions]
  obtain v ss where
    parsed: "parseUnary (er_content
        (exportSlideDeck stringifyUnary wholeNumberToString exampleDeck jsonOptions)) = Some v" and
    arr: "getField ''slides'' v = Some (JArr ss)" and
    same_length: "length ss = length (slides exampleDeck)" and
    same: "\<forall>i<length (slides exampleDeck).
        getField ''id'' (ss ! i) = Some (JStr (sl_id (slides exampleDeck ! i))) \<and>
        getField ''order'' (ss ! i) = Some (JNum (of_nat (sl_order (slides exampleDeck ! i))))"
    unfolding options by blast
  from same_length len obtain a b where ss: "ss = [a, b]"
    by (cases ss; cases "tl ss") auto
  from same [rule_format, of 0] same [rule_format, of 1] len
  have "getField ''id'' a = Some (JStr ''slide-0-17'')"
    and "getField ''id'' b = Some (JStr ''slide-1-18'')"
    and "getField ''order'' a = Some (JNum 0)"
    and "getField ''order'' b = Some (JNum 1)"
    by (simp_all add: ss exampleDeck_def)
  with roundtrip parsed arr ss show ?thesis
    by simp
qed


end
